theory Spec2Isabelle
  imports Complex_Main
begin

section \<open>Python values used by the plotting agent\<close>

text \<open>
  The module \<^verbatim>\<open>todsop03.py\<close> defines one class, \<^verbatim>\<open>PlotAgent\<close>. Its methods call
  collaborators that live outside the module: the language-model agent of langchain,
  \<^verbatim>\<open>DataHandler\<close> (module \<^verbatim>\<open>todsop04\<close>) and \<^verbatim>\<open>CodeExecutor\<close> (module
  \<^verbatim>\<open>todsop_utils\<close>). The collaborators are parameters of the model; what
  \<^verbatim>\<open>PlotAgent\<close> itself does is translated statement by statement.
\<close>

text \<open>
  Exceptions. \<^verbatim>\<open>except Exception\<close> catches the instances of \<^verbatim>\<open>Exception\<close> only;
  \<^verbatim>\<open>KeyboardInterrupt\<close>, \<^verbatim>\<open>SystemExit\<close> and \<^verbatim>\<open>GeneratorExit\<close> derive from
  \<^verbatim>\<open>BaseException\<close> directly. The first argument of the last two constructors is the
  class name, the second the message.
\<close>

datatype exn =
    ValueError string
  | OtherException string string
  | NonException string string

fun is_Exception :: "exn \<Rightarrow> bool" where
  "is_Exception (ValueError m) = True"
| "is_Exception (OtherException cls m) = True"
| "is_Exception (NonException cls m) = False"

text \<open>\<^verbatim>\<open>str(e)\<close>, which the f-string of the handler prints.\<close>

fun str_exn :: "exn \<Rightarrow> string" where
  "str_exn (ValueError m) = m"
| "str_exn (OtherException cls m) = m"
| "str_exn (NonException cls m) = m"

text \<open>
  A Python float: a finite double is represented by the real number it denotes.
\<close>

datatype pyfloat = Finite real | PosInf | NegInf | NaN

text \<open>Objects are known by their identity.\<close>

type_synonym ref = nat

datatype pyobj = DataFrame ref | Module string

text \<open>A dict with string keys, in insertion order.\<close>

type_synonym namespace = "(string \<times> pyobj) list"

type_synonym response = "string \<rightharpoonup> string"

subsection \<open>String operations\<close>

text \<open>\<^verbatim>\<open>str.lower\<close> on the ASCII range; other characters are left as they are.\<close>

definition lower_char :: "char \<Rightarrow> char" where
  "lower_char c =
     (let n = (of_char c :: nat) in if 65 \<le> n \<and> n \<le> 90 then char_of (n + 32) else c)"

definition lower :: "string \<Rightarrow> string" where
  "lower s = map lower_char s"

text \<open>\<^verbatim>\<open>sub in s\<close> for strings: \<open>sub\<close> occurs in \<open>s\<close> as a contiguous substring.\<close>

fun contains :: "string \<Rightarrow> string \<Rightarrow> bool" where
  "contains sub [] = (sub = [])"
| "contains sub (c # cs) = (take (length sub) (c # cs) = sub \<or> contains sub cs)"

text \<open>\<^verbatim>\<open>sep.join(xs)\<close>.\<close>

fun join :: "string \<Rightarrow> string list \<Rightarrow> string" where
  "join sep [] = []"
| "join sep [x] = x"
| "join sep (x # y # ys) = x @ sep @ join sep (y # ys)"

section \<open>The language-model client\<close>

text \<open>
  \<^verbatim>\<open>ChatOpenAI(base_url=..., model=..., api_key=..., temperature=...)\<close>: the client is
  represented by the keyword arguments it is constructed with.
\<close>

record chat_openai =
  base_url :: string
  model :: string
  api_key :: "string option"
  temperature :: pyfloat

text \<open>The process environment, and \<^verbatim>\<open>os.getenv(key, default)\<close> with a string default.\<close>

type_synonym environ = "string \<rightharpoonup> string"

definition getenv :: "environ \<Rightarrow> string \<Rightarrow> string \<Rightarrow> string" where
  "getenv env key dflt = (case env key of None \<Rightarrow> dflt | Some v \<Rightarrow> v)"

text \<open>
  \<^verbatim>\<open>float(os.getenv('PANDAS_TEMPERATURE', 0))\<close>: the default is the int \<open>0\<close>, whose
  float is \<open>0.0\<close>; a value that is set is a string, which \<^verbatim>\<open>float\<close> parses or
  rejects with an exception. The parser of the builtin is the parameter
  \<open>parse_float\<close>.
\<close>

definition float_of_int :: "int \<Rightarrow> pyfloat" where
  "float_of_int n = Finite (of_int n)"

definition initialize_llm ::
  "(string \<Rightarrow> exn + pyfloat) \<Rightarrow> environ \<Rightarrow> exn + chat_openai" where
  "initialize_llm parse_float env =
     (case (case env ''PANDAS_TEMPERATURE'' of
              None \<Rightarrow> Inr (float_of_int 0)
            | Some v \<Rightarrow> parse_float v) of
        Inl e \<Rightarrow> Inl e
      | Inr t \<Rightarrow>
          Inr \<lparr> base_url = getenv env ''PANDAS_BASE_URL'' ''https://api.opentyphoon.ai/v1'',
                model = getenv env ''PANDAS_MODEL'' ''typhoon-v1.5x-70b-instruct'',
                api_key = env ''PLOT_API_KEY'',
                temperature = t \<rparr>)"

section \<open>Collaborators and program state\<close>

text \<open>Keyword arguments of \<^verbatim>\<open>create_pandas_dataframe_agent\<close>.\<close>

datatype agent_type = OPENAI_FUNCTIONS

record agent_args =
  arg_llm :: chat_openai
  arg_df :: ref
  arg_agent_type :: agent_type
  arg_suffix :: string
  arg_verbose :: bool
  arg_allow_dangerous_code :: bool

text \<open>
  The collaborators. Each works on a state \<open>'x\<close> of its own (the language-model
  session, the contents of the dataframe, the figures of matplotlib) and either returns
  or raises. \<open>execute_safe_code\<close> gets the namespace dict by reference, so it also
  returns the dict as it is afterwards. The allow-list is handed over as a value: the
  spec has it shared read-only.
\<close>

record 'x collab =
  float_of_str :: "string \<Rightarrow> exn + pyfloat"
  DataHandler_new :: "'x \<Rightarrow> (exn + ref) \<times> 'x"
  get_data :: "ref \<Rightarrow> 'x \<Rightarrow> (exn + ref) \<times> 'x"
  df_columns :: "ref \<Rightarrow> 'x \<Rightarrow> string list"
  create_pandas_dataframe_agent :: "agent_args \<Rightarrow> 'x \<Rightarrow> (exn + ref) \<times> 'x"
  agent_invoke :: "ref \<Rightarrow> string \<Rightarrow> 'x \<Rightarrow> (exn + response) \<times> 'x"
  extract_code_snippet :: "string \<Rightarrow> 'x \<Rightarrow> (exn + string option) \<times> 'x"
  execute_safe_code ::
    "string \<Rightarrow> string list \<Rightarrow> namespace \<Rightarrow> 'x \<Rightarrow> (exn + unit) \<times> namespace \<times> 'x"

text \<open>The instance attributes of a \<^verbatim>\<open>PlotAgent\<close>.\<close>

record plot_agent =
  llm :: chat_openai
  data_handler :: ref
  df :: ref
  data_analysis_agent :: ref

text \<open>The calls \<^verbatim>\<open>PlotAgent\<close> makes to its collaborators, recorded in order.\<close>

datatype call =
    Call_invoke ref string
  | Call_extract_code_snippet string
  | Call_execute_safe_code string "string list" namespace

text \<open>
  The state a method runs in: the class attribute, the attributes of \<^verbatim>\<open>self\<close>, what
  \<^verbatim>\<open>PlotAgent\<close> has printed (one entry per \<^verbatim>\<open>print\<close>), the calls it has made, and
  the collaborators' state.
\<close>

record 'x state =
  cls_ALLOWED_KEYWORDS :: "string list"
  self :: plot_agent
  printed :: "string list"
  calls :: "call list"
  ext :: 'x

definition ALLOWED_KEYWORDS :: "string list" where
  "ALLOWED_KEYWORDS =
     [''df'', ''iloc'', ''to_dict'', ''mean'', ''mode'', ''std'',
      ''max'', ''min'', ''color'', ''plot'', ''unique'', ''groupby'']"

definition print :: "string \<Rightarrow> 'x state \<Rightarrow> 'x state" where
  "print line s = s\<lparr>printed := printed s @ [line]\<rparr>"

definition record_call :: "call \<Rightarrow> 'x state \<Rightarrow> 'x state" where
  "record_call k s = s\<lparr>calls := calls s @ [k]\<rparr>"

section \<open>PlotAgent\<close>

subsection \<open>Construction\<close>

definition create_agent ::
  "'x collab \<Rightarrow> chat_openai \<Rightarrow> ref \<Rightarrow> 'x \<Rightarrow> (exn + ref) \<times> 'x" where
  "create_agent c l d x =
     (let suffix =
        ''You are working with a DataFrame. The exact column names are: ''
        @ join '', '' (map (\<lambda>col. [CHR 0x27] @ col @ [CHR 0x27]) (df_columns c d x)) @ ''. ''
        @ ''Use df['' @ [CHR 0x27] @ ''column name'' @ [CHR 0x27] @ ''] syntax for column names with spaces. ''
        @ ''Generate Matplotlib plots in Python where applicable.''
      in create_pandas_dataframe_agent c
           \<lparr> arg_llm = l, arg_df = d, arg_agent_type = OPENAI_FUNCTIONS,
             arg_suffix = suffix, arg_verbose = True, arg_allow_dangerous_code = True \<rparr> x)"

text \<open>\<^verbatim>\<open>PlotAgent.__init__\<close>: the four attributes are assigned in this order.\<close>

definition PlotAgent_init ::
  "'x collab \<Rightarrow> environ \<Rightarrow> 'x \<Rightarrow> (exn + plot_agent) \<times> 'x" where
  "PlotAgent_init c env x =
     (case initialize_llm (float_of_str c) env of
        Inl e \<Rightarrow> (Inl e, x)
      | Inr l \<Rightarrow>
          (case DataHandler_new c x of
             (Inl e, x1) \<Rightarrow> (Inl e, x1)
           | (Inr h, x1) \<Rightarrow>
               (case get_data c h x1 of
                  (Inl e, x2) \<Rightarrow> (Inl e, x2)
                | (Inr d, x2) \<Rightarrow>
                    (case create_agent c l d x2 of
                       (Inl e, x3) \<Rightarrow> (Inl e, x3)
                     | (Inr a, x3) \<Rightarrow>
                         (Inr \<lparr> llm = l, data_handler = h, df = d,
                                data_analysis_agent = a \<rparr>, x3)))))"

text \<open>The state of the program once the class body and \<^verbatim>\<open>PlotAgent()\<close> have run.\<close>

definition initial_state :: "plot_agent \<Rightarrow> 'x \<Rightarrow> 'x state" where
  "initial_state a x =
     \<lparr> cls_ALLOWED_KEYWORDS = ALLOWED_KEYWORDS, self = a, printed = [], calls = [], ext = x \<rparr>"

subsection \<open>Methods\<close>

text \<open>\<^verbatim>\<open>_validate_columns\<close>.\<close>

definition validate_columns ::
  "'x collab \<Rightarrow> string list \<Rightarrow> 'x state \<Rightarrow> (exn + unit) \<times> 'x state" where
  "validate_columns c required_columns s =
     (let missing_columns =
        filter (\<lambda>col. col \<notin> set (df_columns c (df (self s)) (ext s))) required_columns
      in if missing_columns \<noteq> []
         then (Inl (ValueError (''Missing required columns: '' @ join '', '' missing_columns)), s)
         else (Inr (), s))"

text \<open>The dict display \<^verbatim>\<open>{'df': self.df, 'pd': pd, 'plt': plt}\<close>.\<close>

definition execution_namespace :: "'x state \<Rightarrow> namespace" where
  "execution_namespace s =
     [(''df'', DataFrame (df (self s))), (''pd'', Module ''pandas''),
      (''plt'', Module ''matplotlib.pyplot'')]"

text \<open>\<^verbatim>\<open>response.get('output', '')\<close>.\<close>

definition get_output :: "response \<Rightarrow> string" where
  "get_output response = (case response ''output'' of None \<Rightarrow> [] | Some t \<Rightarrow> t)"

text \<open>
  \<^verbatim>\<open>_extract_and_execute_code\<close>. \<^verbatim>\<open>not code_snippet\<close> holds of \<^verbatim>\<open>None\<close> and of the
  empty string.
\<close>

definition extract_and_execute_code ::
  "'x collab \<Rightarrow> response \<Rightarrow> 'x state \<Rightarrow> (exn + unit) \<times> 'x state" where
  "extract_and_execute_code c response s =
     (let output = get_output response;
          s1 = record_call (Call_extract_code_snippet output) s
      in case extract_code_snippet c output (ext s1) of
           (Inl e, x1) \<Rightarrow> (Inl e, s1\<lparr>ext := x1\<rparr>)
         | (Inr code_snippet, x1) \<Rightarrow>
             (case code_snippet of
                None \<Rightarrow>
                  (Inl (ValueError ''No valid code snippet generated by the agent.''),
                   s1\<lparr>ext := x1\<rparr>)
              | Some code \<Rightarrow>
                  if code = []
                  then (Inl (ValueError ''No valid code snippet generated by the agent.''),
                        s1\<lparr>ext := x1\<rparr>)
                  else
                    (let s2 = print (''Generated code:'' @ [CHR 0x0A] @ code) (s1\<lparr>ext := x1\<rparr>);
                         ns = execution_namespace s2;
                         s3 = record_call
                                (Call_execute_safe_code code (cls_ALLOWED_KEYWORDS s2) ns) s2
                     in case execute_safe_code c code (cls_ALLOWED_KEYWORDS s2) ns (ext s3) of
                          (r, ns', x2) \<Rightarrow> (r, s3\<lparr>ext := x2\<rparr>))))"

text \<open>The body of the \<^verbatim>\<open>try\<close> in \<^verbatim>\<open>process_query\<close>.\<close>

definition process_query_try ::
  "'x collab \<Rightarrow> string \<Rightarrow> 'x state \<Rightarrow> (exn + unit) \<times> 'x state" where
  "process_query_try c input_user s =
     (case (if contains ''sale price'' (lower input_user)
            then validate_columns c [''sale price'', ''country''] s
            else (Inr (), s)) of
        (Inl e, s1) \<Rightarrow> (Inl e, s1)
      | (Inr u, s1) \<Rightarrow>
          (let s2 = record_call (Call_invoke (data_analysis_agent (self s1)) input_user) s1
           in case agent_invoke c (data_analysis_agent (self s2)) input_user (ext s2) of
                (Inl e, x) \<Rightarrow> (Inl e, s2\<lparr>ext := x\<rparr>)
              | (Inr response, x) \<Rightarrow> extract_and_execute_code c response (s2\<lparr>ext := x\<rparr>)))"

text \<open>\<^verbatim>\<open>process_query\<close>: the \<^verbatim>\<open>try\<close> with its handler \<^verbatim>\<open>except Exception as e\<close>.\<close>

definition process_query ::
  "'x collab \<Rightarrow> string \<Rightarrow> 'x state \<Rightarrow> (exn + unit) \<times> 'x state" where
  "process_query c input_user s =
     (case process_query_try c input_user s of
        (Inr u, s1) \<Rightarrow> (Inr (), s1)
      | (Inl e, s1) \<Rightarrow>
          if is_Exception e
          then (Inr (), print (''An error occurred while processing the query: '' @ str_exn e) s1)
          else (Inl e, s1))"

definition run :: "'x collab \<Rightarrow> string \<Rightarrow> 'x state \<Rightarrow> (exn + unit) \<times> 'x state" where
  "run c input_user s = process_query c input_user (print (''Processing query: '' @ input_user) s)"

text \<open>
  A client that calls \<^verbatim>\<open>run\<close> for one query after the other on the same agent; an
  exception that leaves \<^verbatim>\<open>run\<close> ends it.
\<close>

fun run_all :: "'x collab \<Rightarrow> string list \<Rightarrow> 'x state \<Rightarrow> (exn + unit) \<times> 'x state" where
  "run_all c [] s = (Inr (), s)"
| "run_all c (q # qs) s =
     (case run c q s of
        (Inl e, s1) \<Rightarrow> (Inl e, s1)
      | (Inr u, s1) \<Rightarrow> run_all c qs s1)"

section \<open>Call traces\<close>

text \<open>The calls a run has added to the trace of the state it started in.\<close>

definition new_calls :: "'x state \<Rightarrow> 'x state \<Rightarrow> call list" where
  "new_calls s s' = drop (length (calls s)) (calls s')"

text \<open>
  The calls of one query, started in state \<open>s\<close>: none, or the agent alone, or the agent
  and the extractor, or the three of them, in this order.
\<close>

definition query_calls :: "'x state \<Rightarrow> string \<Rightarrow> call list \<Rightarrow> bool" where
  "query_calls s q ks =
     (ks = [] \<or>
      ks = [Call_invoke (data_analysis_agent (self s)) q] \<or>
      (\<exists>out. ks = [Call_invoke (data_analysis_agent (self s)) q, Call_extract_code_snippet out]) \<or>
      (\<exists>out code.
         ks = [Call_invoke (data_analysis_agent (self s)) q, Call_extract_code_snippet out,
               Call_execute_safe_code code (cls_ALLOWED_KEYWORDS s) (execution_namespace s)]))"

text \<open>Every executor call of a trace got the allow-list \<open>al\<close> and the namespace \<open>ns\<close>.\<close>

definition execute_calls_use :: "string list \<Rightarrow> namespace \<Rightarrow> call list \<Rightarrow> bool" where
  "execute_calls_use al ns ks =
     (\<forall>k \<in> set ks.
        case k of Call_execute_safe_code code al' ns' \<Rightarrow> al' = al \<and> ns' = ns | _ \<Rightarrow> True)"

fun is_invoke :: "call \<Rightarrow> bool" where
  "is_invoke (Call_invoke a q) = True"
| "is_invoke k = False"

fun is_execute :: "call \<Rightarrow> bool" where
  "is_execute (Call_execute_safe_code code al ns) = True"
| "is_execute k = False"

section \<open>The executor of the spec\<close>

text \<open>
  Modelled from the spec: \<^verbatim>\<open>CodeExecutor.execute_safe_code\<close> is defined in the module
  \<^verbatim>\<open>todsop_utils\<close>, which is not among the sources. The spec (4.2, 4.3, 7) has a
  validator and an executor: the snippet is split into tokens; every token that needs
  permission must be in the allow-list as a whole token; the empty snippet fails; the
  decision is pass or fail; on fail the offending tokens are reported and execution
  does not proceed; on pass the snippet runs with the namespace it is given. Which
  tokens of a snippet need permission (\<open>tokens\<close>) and the interpreter (\<open>exec\<close>) are
  parameters. The executor keeps the list of the snippets it has handed to the
  interpreter.
\<close>

record 'y sandbox =
  executed :: "string list"
  inner :: 'y

definition disallowed_tokens ::
  "(string \<Rightarrow> string list) \<Rightarrow> string \<Rightarrow> string list \<Rightarrow> string list" where
  "disallowed_tokens tokens code allowed = filter (\<lambda>t. t \<notin> set allowed) (tokens code)"

definition validator :: "(string \<Rightarrow> string list) \<Rightarrow> string \<Rightarrow> string list \<Rightarrow> bool" where
  "validator tokens code allowed = (code \<noteq> [] \<and> disallowed_tokens tokens code allowed = [])"

definition execute_safe_code_spec ::
  "(string \<Rightarrow> string list) \<Rightarrow>
   (string \<Rightarrow> namespace \<Rightarrow> 'y \<Rightarrow> (exn + unit) \<times> namespace \<times> 'y) \<Rightarrow>
   string \<Rightarrow> string list \<Rightarrow> namespace \<Rightarrow> 'y sandbox \<Rightarrow>
   (exn + unit) \<times> namespace \<times> 'y sandbox" where
  "execute_safe_code_spec tokens exec code allowed ns b =
     (if validator tokens code allowed
      then (case exec code ns (inner b) of
              (r, ns', y) \<Rightarrow> (r, ns', b\<lparr>executed := executed b @ [code], inner := y\<rparr>))
      else (Inl (OtherException ''ValidationRejected''
                   (join '', '' (disallowed_tokens tokens code allowed))), ns, b))"

text \<open>
  The other collaborators do not see the executor's list. They work on \<open>inner\<close>, the
  state the interpreter works on as well: what an agent runs by itself shows there, not
  on the executor's list.
\<close>

definition on_inner :: "('y \<Rightarrow> 'a \<times> 'y) \<Rightarrow> 'y sandbox \<Rightarrow> 'a \<times> 'y sandbox" where
  "on_inner f b = (case f (inner b) of (r, y) \<Rightarrow> (r, b\<lparr>inner := y\<rparr>))"

definition with_safe_executor ::
  "(string \<Rightarrow> string list) \<Rightarrow>
   (string \<Rightarrow> namespace \<Rightarrow> 'y \<Rightarrow> (exn + unit) \<times> namespace \<times> 'y) \<Rightarrow>
   'y collab \<Rightarrow> 'y sandbox collab" where
  "with_safe_executor tokens exec c =
     \<lparr> float_of_str = float_of_str c,
       DataHandler_new = on_inner (DataHandler_new c),
       get_data = (\<lambda>h. on_inner (get_data c h)),
       df_columns = (\<lambda>d b. df_columns c d (inner b)),
       create_pandas_dataframe_agent = (\<lambda>args. on_inner (create_pandas_dataframe_agent c args)),
       agent_invoke = (\<lambda>a q. on_inner (agent_invoke c a q)),
       extract_code_snippet = (\<lambda>t. on_inner (extract_code_snippet c t)),
       execute_safe_code = execute_safe_code_spec tokens exec \<rparr>"

text \<open>
  Every snippet on the executor's list passed the validator against the class
  attribute and was handed over by a recorded call of \<open>execute_safe_code\<close>.
\<close>

definition executed_validated :: "(string \<Rightarrow> string list) \<Rightarrow> 'y sandbox state \<Rightarrow> bool" where
  "executed_validated tokens s =
     (\<forall>code \<in> set (executed (ext s)).
        validator tokens code (cls_ALLOWED_KEYWORDS s) \<and>
        (\<exists>ns. Call_execute_safe_code code (cls_ALLOWED_KEYWORDS s) ns \<in> set (calls s)))"

section \<open>Example collaborators\<close>

text \<open>
  A dataframe with the two columns, an agent that answers every query with one line of
  code, an extractor that returns the answer as it is, and an executor that notes the
  snippet it ran. The examples below vary one collaborator at a time.
\<close>

definition example_collab :: "string list collab" where
  "example_collab =
     \<lparr> float_of_str = (\<lambda>v. if v = ''0.7'' then Inr (Finite (7 / 10))
                            else Inl (ValueError ''could not convert string to float'')),
       DataHandler_new = (\<lambda>x. (Inr 1, x)),
       get_data = (\<lambda>h x. (Inr 2, x)),
       df_columns = (\<lambda>d x. [''sale price'', ''country'']),
       create_pandas_dataframe_agent = (\<lambda>args x. (Inr 3, x)),
       agent_invoke = (\<lambda>a q x. (Inr [''output'' \<mapsto> ''df.plot()''], x)),
       extract_code_snippet = (\<lambda>t x. (Inr (Some t), x)),
       execute_safe_code = (\<lambda>code allowed ns x. (Inr (), ns, x @ [code])) \<rparr>"

definition example_agent :: plot_agent where
  "example_agent =
     \<lparr> llm = \<lparr> base_url = ''https://api.opentyphoon.ai/v1'',
               model = ''typhoon-v1.5x-70b-instruct'', api_key = None,
               temperature = Finite 0 \<rparr>,
       data_handler = 1, df = 2, data_analysis_agent = 3 \<rparr>"

text \<open>
  An interpreter for the examples: its state is the list of the code it has run.
\<close>

definition example_interpreter ::
  "string \<Rightarrow> namespace \<Rightarrow> string list \<Rightarrow> (exn + unit) \<times> namespace \<times> string list" where
  "example_interpreter code ns y = (Inr (), ns, y @ [code])"

text \<open>
  An agent as \<^verbatim>\<open>create_pandas_dataframe_agent\<close> builds it with
  \<^verbatim>\<open>allow_dangerous_code=True\<close>: it runs the code it has generated with its own Python
  tool, on the same interpreter, and then answers with that code.
\<close>

definition example_repl_agent ::
  "ref \<Rightarrow> string \<Rightarrow> string list \<Rightarrow> (exn + response) \<times> string list" where
  "example_repl_agent a q y =
     (case example_interpreter ''os.system()'' [] y of
        (r, ns, y') \<Rightarrow> (Inr [''output'' \<mapsto> ''os.system()''], y'))"

text \<open>
  A tokenizer for the examples: the maximal runs of letters, digits and underscores.
\<close>

definition is_ident_char :: "char \<Rightarrow> bool" where
  "is_ident_char c =
     (let n = (of_char c :: nat)
      in (48 \<le> n \<and> n \<le> 57) \<or> (65 \<le> n \<and> n \<le> 90) \<or> n = 95 \<or> (97 \<le> n \<and> n \<le> 122))"

fun ident_tokens_from :: "string \<Rightarrow> string \<Rightarrow> string list" where
  "ident_tokens_from cur [] = (if cur = [] then [] else [cur])"
| "ident_tokens_from cur (c # cs) =
     (if is_ident_char c then ident_tokens_from (cur @ [c]) cs
      else if cur = [] then ident_tokens_from [] cs
      else cur # ident_tokens_from [] cs)"

definition ident_tokens :: "string \<Rightarrow> string list" where
  "ident_tokens code = ident_tokens_from [] code"

section \<open>The string operations\<close>

text \<open>\<open>contains\<close> is the substring test, and an example of \<open>lower\<close>.\<close>

lemma take_length_eq_iff: "(take (length sub) s = sub) = (\<exists>suf. s = sub @ suf)"
proof
  assume "take (length sub) s = sub"
  then have "s = sub @ drop (length sub) s" by (metis append_take_drop_id)
  then show "\<exists>suf. s = sub @ suf" ..
next
  assume "\<exists>suf. s = sub @ suf"
  then show "take (length sub) s = sub" by auto
qed

lemma contains_iff: "contains sub s = (\<exists>pre suf. s = pre @ sub @ suf)"
proof (induction s)
  case Nil
  show ?case by auto
next
  case (Cons c cs)
  have "(\<exists>pre suf. c # cs = pre @ sub @ suf) =
        ((\<exists>suf. c # cs = sub @ suf) \<or> (\<exists>pre suf. cs = pre @ sub @ suf))"
  proof
    assume "\<exists>pre suf. c # cs = pre @ sub @ suf"
    then obtain pre suf where eq: "c # cs = pre @ sub @ suf" by blast
    show "(\<exists>suf. c # cs = sub @ suf) \<or> (\<exists>pre suf. cs = pre @ sub @ suf)"
    proof (cases pre)
      case Nil
      with eq show ?thesis by auto
    next
      case (Cons p ps)
      with eq have "cs = ps @ sub @ suf" by simp
      then show ?thesis by blast
    qed
  next
    assume "(\<exists>suf. c # cs = sub @ suf) \<or> (\<exists>pre suf. cs = pre @ sub @ suf)"
    then show "\<exists>pre suf. c # cs = pre @ sub @ suf"
    proof
      assume "\<exists>suf. c # cs = sub @ suf"
      then obtain suf where "c # cs = [] @ sub @ suf" by auto
      then show ?thesis by blast
    next
      assume "\<exists>pre suf. cs = pre @ sub @ suf"
      then obtain pre suf where "c # cs = (c # pre) @ sub @ suf" by auto
      then show ?thesis by blast
    qed
  qed
  with Cons.IH take_length_eq_iff [of sub "c # cs"] show ?case
    by (simp only: contains.simps)
qed

lemma lower_example: "lower ''Plot SALE Price, by Country [AZ]'' = ''plot sale price, by country [az]''"
  by code_simp

section \<open>Frame and trace lemmas\<close>

lemma extract_frame:
  "cls_ALLOWED_KEYWORDS (snd (extract_and_execute_code c response s)) = cls_ALLOWED_KEYWORDS s \<and>
   self (snd (extract_and_execute_code c response s)) = self s"
  by (simp add: extract_and_execute_code_def print_def record_call_def Let_def
      split: prod.splits sum.splits option.splits)

lemma try_frame:
  "cls_ALLOWED_KEYWORDS (snd (process_query_try c q s)) = cls_ALLOWED_KEYWORDS s \<and>
   self (snd (process_query_try c q s)) = self s"
  by (simp add: process_query_try_def validate_columns_def record_call_def Let_def extract_frame
      split: prod.splits sum.splits)

lemma process_query_frame:
  "cls_ALLOWED_KEYWORDS (snd (process_query c q s)) = cls_ALLOWED_KEYWORDS s \<and>
   self (snd (process_query c q s)) = self s"
  using try_frame [of c q s]
  by (auto simp add: process_query_def print_def split: prod.splits sum.splits)

lemma run_frame:
  "cls_ALLOWED_KEYWORDS (snd (run c q s)) = cls_ALLOWED_KEYWORDS s \<and>
   self (snd (run c q s)) = self s"
  by (simp add: run_def process_query_frame print_def)

lemma run_all_frame:
  "cls_ALLOWED_KEYWORDS (snd (run_all c qs s)) = cls_ALLOWED_KEYWORDS s \<and>
   self (snd (run_all c qs s)) = self s"
proof (induction qs arbitrary: s)
  case Nil
  show ?case by simp
next
  case (Cons q qs)
  obtain r s1 where run: "run c q s = (r, s1)" by (cases "run c q s")
  from run_frame [of c q s] run have fr:
    "cls_ALLOWED_KEYWORDS s1 = cls_ALLOWED_KEYWORDS s" "self s1 = self s" by simp_all
  show ?case
  proof (cases r)
    case (Inl e)
    with run fr show ?thesis by simp
  next
    case (Inr u)
    with run fr Cons.IH [of s1] show ?thesis by simp
  qed
qed

lemma extract_calls:
  "\<exists>out. calls (snd (extract_and_execute_code c response s)) = calls s @ [Call_extract_code_snippet out]
     \<or> (\<exists>code. calls (snd (extract_and_execute_code c response s)) =
          calls s @ [Call_extract_code_snippet out,
                     Call_execute_safe_code code (cls_ALLOWED_KEYWORDS s) (execution_namespace s)])"
  by (simp add: extract_and_execute_code_def print_def record_call_def Let_def execution_namespace_def
      split: prod.splits sum.splits option.splits)

lemma try_calls:
  "\<exists>ks. calls (snd (process_query_try c q s)) = calls s @ ks \<and> query_calls s q ks"
proof (cases "contains ''sale price'' (lower q) \<and>
              fst (validate_columns c [''sale price'', ''country''] s) \<noteq> Inr ()")
  case True
  then have "calls (snd (process_query_try c q s)) = calls s"
    by (auto simp: process_query_try_def validate_columns_def Let_def split: if_splits)
  then show ?thesis by (simp add: query_calls_def)
next
  case False
  let ?s2 = "record_call (Call_invoke (data_analysis_agent (self s)) q) s"
  have body: "process_query_try c q s =
      (case agent_invoke c (data_analysis_agent (self ?s2)) q (ext ?s2) of
         (Inl e, x) \<Rightarrow> (Inl e, ?s2\<lparr>ext := x\<rparr>)
       | (Inr response, x) \<Rightarrow> extract_and_execute_code c response (?s2\<lparr>ext := x\<rparr>))"
    using False
    by (auto simp: process_query_try_def validate_columns_def Let_def split: if_splits)
  show ?thesis
  proof (cases "agent_invoke c (data_analysis_agent (self ?s2)) q (ext ?s2)")
    case (Pair r x)
    show ?thesis
    proof (cases r)
      case (Inl e)
      with Pair body have "calls (snd (process_query_try c q s)) =
          calls s @ [Call_invoke (data_analysis_agent (self s)) q]"
        by (simp add: record_call_def)
      then show ?thesis by (simp add: query_calls_def)
    next
      case (Inr response)
      with Pair body have eq: "process_query_try c q s =
          extract_and_execute_code c response (?s2\<lparr>ext := x\<rparr>)" by simp
      from extract_calls [of c response "?s2\<lparr>ext := x\<rparr>"]
      show ?thesis
        unfolding eq by (auto simp: record_call_def query_calls_def execution_namespace_def)
    qed
  qed
qed

lemma process_query_calls:
  "\<exists>ks. calls (snd (process_query c q s)) = calls s @ ks \<and> query_calls s q ks"
proof -
  have "calls (snd (process_query c q s)) = calls (snd (process_query_try c q s))"
    by (simp add: process_query_def print_def split: prod.splits sum.splits)
  then show ?thesis using try_calls [of c q s] by simp
qed

lemma run_calls:
  "\<exists>ks. calls (snd (run c q s)) = calls s @ ks \<and> query_calls s q ks"
  using process_query_calls [of c q "print (''Processing query: '' @ q) s"]
  by (simp add: run_def print_def query_calls_def execution_namespace_def)

lemma query_calls_use:
  "query_calls s q ks \<Longrightarrow> execute_calls_use (cls_ALLOWED_KEYWORDS s) (execution_namespace s) ks"
  by (auto simp: query_calls_def execute_calls_use_def)

lemma run_all_calls:
  "\<exists>ks. calls (snd (run_all c qs s)) = calls s @ ks \<and>
        execute_calls_use (cls_ALLOWED_KEYWORDS s) (execution_namespace s) ks"
proof (induction qs arbitrary: s)
  case Nil
  show ?case by (simp add: execute_calls_use_def)
next
  case (Cons q qs)
  obtain r s1 where run: "run c q s = (r, s1)" by (cases "run c q s")
  from run_calls [of c q s] run obtain ks where
    ks: "calls s1 = calls s @ ks" "query_calls s q ks" by auto
  have use1: "execute_calls_use (cls_ALLOWED_KEYWORDS s) (execution_namespace s) ks"
    using ks(2) by (rule query_calls_use)
  show ?case
  proof (cases r)
    case (Inl e)
    with run ks use1 show ?thesis by simp
  next
    case (Inr u)
    from run_frame [of c q s] run have fr:
      "cls_ALLOWED_KEYWORDS s1 = cls_ALLOWED_KEYWORDS s" "self s1 = self s" by simp_all
    from Cons.IH [of s1] obtain ks' where
      ks': "calls (snd (run_all c qs s1)) = calls s1 @ ks'"
           "execute_calls_use (cls_ALLOWED_KEYWORDS s1) (execution_namespace s1) ks'" by blast
    have "execution_namespace s1 = execution_namespace s"
      by (simp add: execution_namespace_def fr)
    with ks' fr have "execute_calls_use (cls_ALLOWED_KEYWORDS s) (execution_namespace s) (ks @ ks')"
      using use1 by (auto simp: execute_calls_use_def)
    moreover have "calls (snd (run_all c (q # qs) s)) = calls s @ ks @ ks'"
      using run Inr ks ks' by simp
    ultimately show ?thesis by blast
  qed
qed

lemma run_all_new_calls:
  "calls (snd (run_all c qs s)) = calls s @ new_calls s (snd (run_all c qs s)) \<and>
   execute_calls_use (cls_ALLOWED_KEYWORDS s) (execution_namespace s)
     (new_calls s (snd (run_all c qs s)))"
  using run_all_calls [of c qs s] by (auto simp: new_calls_def)

lemma extract_raises_origin:
  assumes "fst (extract_and_execute_code c response s) = Inl e"
  shows "e = ValueError ''No valid code snippet generated by the agent.'' \<or>
         (\<exists>t x. fst (extract_code_snippet c t x) = Inl e) \<or>
         (\<exists>code al ns x. fst (execute_safe_code c code al ns x) = Inl e)"
proof -
  let ?out = "get_output response"
  obtain r x1 where ex: "extract_code_snippet c ?out (ext s) = (r, x1)"
    by (cases "extract_code_snippet c ?out (ext s)")
  show ?thesis
  proof (cases r)
    case (Inl e')
    with ex assms have "e' = e"
      by (simp add: extract_and_execute_code_def record_call_def Let_def)
    with ex Inl have "fst (extract_code_snippet c ?out (ext s)) = Inl e" by simp
    then show ?thesis by blast
  next
    case (Inr snippet)
    show ?thesis
    proof (cases "snippet = None \<or> snippet = Some []")
      case True
      with ex Inr assms show ?thesis
        by (auto simp: extract_and_execute_code_def record_call_def Let_def)
    next
      case False
      then obtain code where code: "snippet = Some code" "code \<noteq> []" by auto
      obtain r2 ns2 x2 where run:
        "execute_safe_code c code (cls_ALLOWED_KEYWORDS s) (execution_namespace s) x1 = (r2, ns2, x2)"
        by (cases "execute_safe_code c code (cls_ALLOWED_KEYWORDS s) (execution_namespace s) x1")
      from ex Inr code run assms have "r2 = Inl e"
        by (simp add: extract_and_execute_code_def record_call_def print_def Let_def
            execution_namespace_def)
      with run have
        "fst (execute_safe_code c code (cls_ALLOWED_KEYWORDS s) (execution_namespace s) x1) = Inl e"
        by simp
      then show ?thesis by blast
    qed
  qed
qed


lemma validate_columns_raises:
  assumes "fst (validate_columns c required_columns s) = Inl e"
  shows "\<exists>ms. e = ValueError (''Missing required columns: '' @ join '', '' ms)"
proof -
  let ?ms = "filter (\<lambda>col. col \<notin> set (df_columns c (df (self s)) (ext s))) required_columns"
  have "validate_columns c required_columns s =
      (if ?ms \<noteq> []
       then (Inl (ValueError (''Missing required columns: '' @ join '', '' ?ms)), s)
       else (Inr (), s))"
    unfolding validate_columns_def Let_def ..
  with assms have "e = ValueError (''Missing required columns: '' @ join '', '' ?ms)"
    by (cases "?ms = []") simp_all
  then show ?thesis ..
qed

lemma try_raises_origin:
  assumes "fst (process_query_try c q s) = Inl e"
  shows "(\<exists>ms. e = ValueError (''Missing required columns: '' @ join '', '' ms)) \<or>
         e = ValueError ''No valid code snippet generated by the agent.'' \<or>
         (\<exists>a x. fst (agent_invoke c a q x) = Inl e) \<or>
         (\<exists>t x. fst (extract_code_snippet c t x) = Inl e) \<or>
         (\<exists>code al ns x. fst (execute_safe_code c code al ns x) = Inl e)"
proof (cases "contains ''sale price'' (lower q) \<and>
              fst (validate_columns c [''sale price'', ''country''] s) \<noteq> Inr ()")
  case True
  then have "fst (process_query_try c q s) = fst (validate_columns c [''sale price'', ''country''] s)"
    by (auto simp: process_query_try_def split: prod.splits sum.splits)
  with assms have "fst (validate_columns c [''sale price'', ''country''] s) = Inl e"
    by simp
  from validate_columns_raises [OF this] show ?thesis by (rule disjI1)
next
  case False
  let ?s2 = "record_call (Call_invoke (data_analysis_agent (self s)) q) s"
  have body: "process_query_try c q s =
      (case agent_invoke c (data_analysis_agent (self ?s2)) q (ext ?s2) of
         (Inl e, x) \<Rightarrow> (Inl e, ?s2\<lparr>ext := x\<rparr>)
       | (Inr response, x) \<Rightarrow> extract_and_execute_code c response (?s2\<lparr>ext := x\<rparr>))"
    using False
    by (auto simp: process_query_try_def validate_columns_def Let_def split: if_splits)
  obtain r x where inv: "agent_invoke c (data_analysis_agent (self ?s2)) q (ext ?s2) = (r, x)"
    by (cases "agent_invoke c (data_analysis_agent (self ?s2)) q (ext ?s2)")
  show ?thesis
  proof (cases r)
    case (Inl e')
    with inv body assms have "e' = e" by simp
    with inv Inl have "fst (agent_invoke c (data_analysis_agent (self ?s2)) q (ext ?s2)) = Inl e"
      by simp
    then show ?thesis by blast
  next
    case (Inr response)
    with inv body assms have "fst (extract_and_execute_code c response (?s2\<lparr>ext := x\<rparr>)) = Inl e"
      by simp
    from extract_raises_origin [OF this] show ?thesis by blast
  qed
qed

lemma main_query_mentions_sale_price:
  "contains ''sale price'' (lower ''plot bar chart of sale price by country with unique color'')"
  by code_simp

lemma record_call_sel:
  "cls_ALLOWED_KEYWORDS (record_call k s) = cls_ALLOWED_KEYWORDS s"
  "self (record_call k s) = self s"
  "printed (record_call k s) = printed s"
  "calls (record_call k s) = calls s @ [k]"
  "ext (record_call k s) = ext s"
  by (simp_all add: record_call_def)

lemma print_sel:
  "cls_ALLOWED_KEYWORDS (print line s) = cls_ALLOWED_KEYWORDS s"
  "self (print line s) = self s"
  "printed (print line s) = printed s @ [line]"
  "calls (print line s) = calls s"
  "ext (print line s) = ext s"
  by (simp_all add: print_def)

lemma try_after_check:
  assumes "\<not> contains ''sale price'' (lower q) \<or>
           filter (\<lambda>col. col \<notin> set (df_columns c (df (self s)) (ext s)))
             [''sale price'', ''country''] = []"
  shows "process_query_try c q s =
      (case agent_invoke c (data_analysis_agent (self s)) q (ext s) of
         (Inl e, x) \<Rightarrow> (Inl e, (record_call (Call_invoke (data_analysis_agent (self s)) q) s)\<lparr>ext := x\<rparr>)
       | (Inr response, x) \<Rightarrow>
           extract_and_execute_code c response
             ((record_call (Call_invoke (data_analysis_agent (self s)) q) s)\<lparr>ext := x\<rparr>))"
  using assms
  by (auto simp: process_query_try_def validate_columns_def record_call_sel Let_def
      split: if_splits)

lemma try_invokes_first:
  assumes "\<not> contains ''sale price'' (lower q) \<or>
           filter (\<lambda>col. col \<notin> set (df_columns c (df (self s)) (ext s)))
             [''sale price'', ''country''] = []"
  shows "\<exists>ks. calls (snd (process_query_try c q s)) =
           calls s @ Call_invoke (data_analysis_agent (self s)) q # ks"
proof -
  let ?s2 = "record_call (Call_invoke (data_analysis_agent (self s)) q) s"
  note body = try_after_check [OF assms]
  obtain r x where inv: "agent_invoke c (data_analysis_agent (self s)) q (ext s) = (r, x)"
    by (cases "agent_invoke c (data_analysis_agent (self s)) q (ext s)")
  show ?thesis
  proof (cases r)
    case (Inl e)
    with inv body show ?thesis by (simp add: record_call_def)
  next
    case (Inr response)
    with inv body have eq: "process_query_try c q s =
        extract_and_execute_code c response (?s2\<lparr>ext := x\<rparr>)" by simp
    from extract_calls [of c response "?s2\<lparr>ext := x\<rparr>"]
    show ?thesis unfolding eq by (auto simp: record_call_def)
  qed
qed

lemma handler_makes_no_call:
  "calls (snd (process_query c q s)) = calls (snd (process_query_try c q s))"
  by (simp add: process_query_def print_def split: prod.splits sum.splits)

lemma extract_ignores_columns:
  "extract_and_execute_code (c\<lparr>df_columns := cols\<rparr>) response s =
   extract_and_execute_code c response s"
  by (simp add: extract_and_execute_code_def Let_def split: prod.splits sum.splits option.splits)

lemma histogram_query_no_sale_price:
  "\<not> contains ''sale price'' (lower ''Plot a histogram of SALES'')"
  by code_simp

lemma run_all_execute_calls:
  assumes "Call_execute_safe_code code al ns \<in> set (new_calls s (snd (run_all c qs s)))"
  shows "al = cls_ALLOWED_KEYWORDS s \<and> ns = execution_namespace s"
  using run_all_new_calls [of c qs s] assms
  by (auto simp: execute_calls_use_def)

lemma new_calls_initial:
  "new_calls (initial_state a x) s' = calls s'"
  by (simp add: new_calls_def initial_state_def)

lemma example_two_queries:
  "run_all example_collab
     [''plot bar chart of sale price by country with unique color'', ''Plot a histogram of SALES'']
     (initial_state example_agent []) =
   (Inr (),
    \<lparr> cls_ALLOWED_KEYWORDS = ALLOWED_KEYWORDS, self = example_agent,
      printed =
        [''Processing query: plot bar chart of sale price by country with unique color'',
         ''Generated code:'' @ [CHR 0x0A] @ ''df.plot()'',
         ''Processing query: Plot a histogram of SALES'',
         ''Generated code:'' @ [CHR 0x0A] @ ''df.plot()''],
      calls =
        [Call_invoke 3 ''plot bar chart of sale price by country with unique color'',
         Call_extract_code_snippet ''df.plot()'',
         Call_execute_safe_code ''df.plot()'' ALLOWED_KEYWORDS
           [(''df'', DataFrame 2), (''pd'', Module ''pandas''),
            (''plt'', Module ''matplotlib.pyplot'')],
         Call_invoke 3 ''Plot a histogram of SALES'',
         Call_extract_code_snippet ''df.plot()'',
         Call_execute_safe_code ''df.plot()'' ALLOWED_KEYWORDS
           [(''df'', DataFrame 2), (''pd'', Module ''pandas''),
            (''plt'', Module ''matplotlib.pyplot'')]],
      ext = [''df.plot()'', ''df.plot()''] \<rparr>)"
proof -
  let ?s = "initial_state example_agent ([] :: string list)"
  let ?ns = "[(''df'', DataFrame 2), (''pd'', Module ''pandas''),
              (''plt'', Module ''matplotlib.pyplot'')]"
  have r1: "run example_collab ''plot bar chart of sale price by country with unique color'' ?s =
     (Inr (),
      ?s\<lparr>printed :=
          [''Processing query: plot bar chart of sale price by country with unique color'',
           ''Generated code:'' @ [CHR 0x0A] @ ''df.plot()''],
         calls :=
          [Call_invoke 3 ''plot bar chart of sale price by country with unique color'',
           Call_extract_code_snippet ''df.plot()'',
           Call_execute_safe_code ''df.plot()'' ALLOWED_KEYWORDS ?ns],
         ext := [''df.plot()'']\<rparr>)"
    by (simp add: run_def process_query_def process_query_try_def validate_columns_def
        extract_and_execute_code_def record_call_def print_def execution_namespace_def
        get_output_def Let_def example_collab_def example_agent_def initial_state_def
        main_query_mentions_sale_price)
  let ?s1 = "?s\<lparr>printed :=
          [''Processing query: plot bar chart of sale price by country with unique color'',
           ''Generated code:'' @ [CHR 0x0A] @ ''df.plot()''],
         calls :=
          [Call_invoke 3 ''plot bar chart of sale price by country with unique color'',
           Call_extract_code_snippet ''df.plot()'',
           Call_execute_safe_code ''df.plot()'' ALLOWED_KEYWORDS ?ns],
         ext := [''df.plot()'']\<rparr>"
  have r2: "run example_collab ''Plot a histogram of SALES'' ?s1 =
     (Inr (),
      \<lparr> cls_ALLOWED_KEYWORDS = ALLOWED_KEYWORDS, self = example_agent,
        printed =
          [''Processing query: plot bar chart of sale price by country with unique color'',
           ''Generated code:'' @ [CHR 0x0A] @ ''df.plot()'',
           ''Processing query: Plot a histogram of SALES'',
           ''Generated code:'' @ [CHR 0x0A] @ ''df.plot()''],
        calls =
          [Call_invoke 3 ''plot bar chart of sale price by country with unique color'',
           Call_extract_code_snippet ''df.plot()'',
           Call_execute_safe_code ''df.plot()'' ALLOWED_KEYWORDS ?ns,
           Call_invoke 3 ''Plot a histogram of SALES'',
           Call_extract_code_snippet ''df.plot()'',
           Call_execute_safe_code ''df.plot()'' ALLOWED_KEYWORDS ?ns],
        ext = [''df.plot()'', ''df.plot()''] \<rparr>)"
    by (simp add: run_def process_query_def process_query_try_def
        extract_and_execute_code_def record_call_def print_def execution_namespace_def
        get_output_def Let_def example_collab_def example_agent_def initial_state_def
        histogram_query_no_sale_price)
  show ?thesis
    by (simp only: run_all.simps r1 r2 prod.case sum.case)
qed

lemma extract_namespace_dropped:
  assumes "\<forall>code al ns x. fst (e1 code al ns x) = fst (e2 code al ns x) \<and>
                          snd (snd (e1 code al ns x)) = snd (snd (e2 code al ns x))"
  shows "extract_and_execute_code (c\<lparr>execute_safe_code := e1\<rparr>) response s =
         extract_and_execute_code (c\<lparr>execute_safe_code := e2\<rparr>) response s"
  using assms
  by (simp add: extract_and_execute_code_def Let_def case_prod_beta
      split: sum.splits option.splits)

lemma process_query_namespace_dropped:
  assumes "\<forall>code al ns x. fst (e1 code al ns x) = fst (e2 code al ns x) \<and>
                          snd (snd (e1 code al ns x)) = snd (snd (e2 code al ns x))"
  shows "process_query (c\<lparr>execute_safe_code := e1\<rparr>) q s =
         process_query (c\<lparr>execute_safe_code := e2\<rparr>) q s"
proof -
  have "process_query_try (c\<lparr>execute_safe_code := e1\<rparr>) q s =
        process_query_try (c\<lparr>execute_safe_code := e2\<rparr>) q s"
    by (simp add: process_query_try_def validate_columns_def Let_def
        extract_namespace_dropped [OF assms] split: prod.splits sum.splits)
  then show ?thesis by (simp add: process_query_def)
qed

lemma run_all_namespace_dropped:
  assumes "\<forall>code al ns x. fst (e1 code al ns x) = fst (e2 code al ns x) \<and>
                          snd (snd (e1 code al ns x)) = snd (snd (e2 code al ns x))"
  shows "run_all (c\<lparr>execute_safe_code := e1\<rparr>) qs s =
         run_all (c\<lparr>execute_safe_code := e2\<rparr>) qs s"
proof (induction qs arbitrary: s)
  case Nil
  show ?case by simp
next
  case (Cons q qs)
  have "run (c\<lparr>execute_safe_code := e1\<rparr>) q s = run (c\<lparr>execute_safe_code := e2\<rparr>) q s"
    by (simp add: run_def process_query_namespace_dropped [OF assms])
  with Cons.IH show ?case by (simp split: prod.splits sum.splits)
qed

lemma init_df:
  assumes "PlotAgent_init c env x = (Inr a, x')"
  shows "\<exists>h x1 x2. DataHandler_new c x = (Inr h, x1) \<and>
                   get_data c h x1 = (Inr (df a), x2) \<and> data_handler a = h"
  using assms
  by (auto simp: PlotAgent_init_def split: sum.splits prod.splits)

lemma example_init:
  "PlotAgent_init example_collab Map.empty [] = (Inr example_agent, [])"
  by (simp add: PlotAgent_init_def initialize_llm_def getenv_def float_of_int_def
      create_agent_def example_collab_def example_agent_def)

subsection \<open>The executor of the spec in a run\<close>

lemma on_inner_executed: "executed (snd (on_inner f b)) = executed b"
  by (simp add: on_inner_def split: prod.splits)

lemma rejected_not_executed:
  assumes "\<not> validator tokens code allowed"
  shows "execute_safe_code_spec tokens exec code allowed ns b =
           (Inl (OtherException ''ValidationRejected''
                   (join '', '' (disallowed_tokens tokens code allowed))), ns, b)"
  using assms by (simp add: execute_safe_code_spec_def)

lemma spec_executor_executed:
  "executed (snd (snd (execute_safe_code_spec tokens exec code allowed ns b))) =
     (if validator tokens code allowed then executed b @ [code] else executed b)"
  by (simp add: execute_safe_code_spec_def split: prod.splits)

lemma extract_executed:
  "executed (ext (snd (extract_and_execute_code (with_safe_executor tokens exec c) response s))) =
     executed (ext s) \<or>
   (\<exists>code.
      executed (ext (snd (extract_and_execute_code (with_safe_executor tokens exec c) response s))) =
        executed (ext s) @ [code] \<and>
      validator tokens code (cls_ALLOWED_KEYWORDS s) \<and>
      calls (snd (extract_and_execute_code (with_safe_executor tokens exec c) response s)) =
        calls s @ [Call_extract_code_snippet (get_output response),
                   Call_execute_safe_code code (cls_ALLOWED_KEYWORDS s) (execution_namespace s)])"
proof -
  let ?c = "with_safe_executor tokens exec c"
  let ?s1 = "record_call (Call_extract_code_snippet (get_output response)) s"
  obtain r b1 where ex: "extract_code_snippet ?c (get_output response) (ext ?s1) = (r, b1)"
    by (cases "extract_code_snippet ?c (get_output response) (ext ?s1)")
  have b1: "executed b1 = executed (ext s)"
    using ex on_inner_executed [of "extract_code_snippet c (get_output response)" "ext s"]
    by (simp add: with_safe_executor_def record_call_sel)
  show ?thesis
  proof (cases "\<exists>code. r = Inr (Some code) \<and> code \<noteq> []")
    case False
    with ex have "ext (snd (extract_and_execute_code ?c response s)) = b1"
      by (auto simp: extract_and_execute_code_def Let_def split: sum.splits option.splits)
    with b1 show ?thesis by simp
  next
    case True
    then obtain code where code: "r = Inr (Some code)" "code \<noteq> []" by blast
    let ?s3 = "record_call (Call_execute_safe_code code (cls_ALLOWED_KEYWORDS s)
                 (execution_namespace s))
                 (print (''Generated code:'' @ [CHR 0x0A] @ code) (?s1\<lparr>ext := b1\<rparr>))"
    obtain r2 ns2 b2 where run: "execute_safe_code_spec tokens exec code (cls_ALLOWED_KEYWORDS s)
        (execution_namespace s) b1 = (r2, ns2, b2)"
      by (cases "execute_safe_code_spec tokens exec code (cls_ALLOWED_KEYWORDS s)
        (execution_namespace s) b1")
    have res: "extract_and_execute_code ?c response s = (r2, ?s3\<lparr>ext := b2\<rparr>)"
      using ex code run
      by (simp add: extract_and_execute_code_def Let_def record_call_sel print_sel
          execution_namespace_def with_safe_executor_def)
    have b2: "executed b2 =
        (if validator tokens code (cls_ALLOWED_KEYWORDS s) then executed b1 @ [code] else executed b1)"
      using spec_executor_executed
        [of tokens exec code "cls_ALLOWED_KEYWORDS s" "execution_namespace s" b1] run
      by simp
    show ?thesis
    proof (cases "validator tokens code (cls_ALLOWED_KEYWORDS s)")
      case False
      with res b1 b2 show ?thesis by simp
    next
      case True
      with res b1 b2 show ?thesis
        by (simp add: record_call_def print_def)
    qed
  qed
qed

lemma try_executed:
  "executed (ext (snd (process_query_try (with_safe_executor tokens exec c) q s))) =
     executed (ext s) \<or>
   (\<exists>out code.
      executed (ext (snd (process_query_try (with_safe_executor tokens exec c) q s))) =
        executed (ext s) @ [code] \<and>
      validator tokens code (cls_ALLOWED_KEYWORDS s) \<and>
      calls (snd (process_query_try (with_safe_executor tokens exec c) q s)) =
        calls s @ [Call_invoke (data_analysis_agent (self s)) q,
                   Call_extract_code_snippet out,
                   Call_execute_safe_code code (cls_ALLOWED_KEYWORDS s) (execution_namespace s)])"
proof (cases "contains ''sale price'' (lower q) \<and>
              fst (validate_columns (with_safe_executor tokens exec c)
                     [''sale price'', ''country''] s) \<noteq> Inr ()")
  case True
  then have "snd (process_query_try (with_safe_executor tokens exec c) q s) = s"
    by (auto simp: process_query_try_def validate_columns_def Let_def split: if_splits)
  then show ?thesis by simp
next
  case False
  let ?c = "with_safe_executor tokens exec c"
  let ?s2 = "record_call (Call_invoke (data_analysis_agent (self s)) q) s"
  have body: "process_query_try ?c q s =
      (case agent_invoke ?c (data_analysis_agent (self ?s2)) q (ext ?s2) of
         (Inl e, x) \<Rightarrow> (Inl e, ?s2\<lparr>ext := x\<rparr>)
       | (Inr response, x) \<Rightarrow> extract_and_execute_code ?c response (?s2\<lparr>ext := x\<rparr>))"
    using False
    by (auto simp: process_query_try_def validate_columns_def Let_def split: if_splits)
  obtain r b where inv: "agent_invoke ?c (data_analysis_agent (self ?s2)) q (ext ?s2) = (r, b)"
    by (cases "agent_invoke ?c (data_analysis_agent (self ?s2)) q (ext ?s2)")
  have b: "executed b = executed (ext s)"
    using inv on_inner_executed [of "agent_invoke c (data_analysis_agent (self s)) q" "ext s"]
    by (simp add: with_safe_executor_def record_call_sel)
  show ?thesis
  proof (cases r)
    case (Inl e)
    with inv body b show ?thesis by simp
  next
    case (Inr response)
    with inv body have eq: "process_query_try ?c q s =
        extract_and_execute_code ?c response (?s2\<lparr>ext := b\<rparr>)" by simp
    from extract_executed [of tokens exec c response "?s2\<lparr>ext := b\<rparr>"] b
    show ?thesis
      unfolding eq by (auto simp: record_call_def execution_namespace_def)
  qed
qed

lemma process_query_executed:
  "executed (ext (snd (process_query (with_safe_executor tokens exec c) q s))) =
     executed (ext s) \<or>
   (\<exists>out code.
      executed (ext (snd (process_query (with_safe_executor tokens exec c) q s))) =
        executed (ext s) @ [code] \<and>
      validator tokens code (cls_ALLOWED_KEYWORDS s) \<and>
      calls (snd (process_query (with_safe_executor tokens exec c) q s)) =
        calls s @ [Call_invoke (data_analysis_agent (self s)) q,
                   Call_extract_code_snippet out,
                   Call_execute_safe_code code (cls_ALLOWED_KEYWORDS s) (execution_namespace s)])"
proof -
  let ?c = "with_safe_executor tokens exec c"
  have "ext (snd (process_query ?c q s)) = ext (snd (process_query_try ?c q s))"
    by (simp add: process_query_def print_def split: prod.splits sum.splits)
  with try_executed [of tokens exec c q s] handler_makes_no_call [of ?c q s]
  show ?thesis by simp
qed

lemma executed_validated_step:
  assumes inv: "executed_validated tokens s"
    and cls: "cls_ALLOWED_KEYWORDS s' = cls_ALLOWED_KEYWORDS s"
    and ks: "calls s' = calls s @ ks"
    and ex: "executed (ext s') = executed (ext s) \<or>
       (\<exists>code ns. executed (ext s') = executed (ext s) @ [code] \<and>
          validator tokens code (cls_ALLOWED_KEYWORDS s) \<and>
          Call_execute_safe_code code (cls_ALLOWED_KEYWORDS s) ns \<in> set (calls s'))"
  shows "executed_validated tokens s'"
  unfolding executed_validated_def
proof
  fix code assume mem: "code \<in> set (executed (ext s'))"
  from ex show "validator tokens code (cls_ALLOWED_KEYWORDS s') \<and>
      (\<exists>ns. Call_execute_safe_code code (cls_ALLOWED_KEYWORDS s') ns \<in> set (calls s'))"
  proof
    assume "executed (ext s') = executed (ext s)"
    with mem inv have "validator tokens code (cls_ALLOWED_KEYWORDS s) \<and>
        (\<exists>ns. Call_execute_safe_code code (cls_ALLOWED_KEYWORDS s) ns \<in> set (calls s))"
      by (simp add: executed_validated_def)
    with cls ks show ?thesis by auto
  next
    assume "\<exists>code ns. executed (ext s') = executed (ext s) @ [code] \<and>
          validator tokens code (cls_ALLOWED_KEYWORDS s) \<and>
          Call_execute_safe_code code (cls_ALLOWED_KEYWORDS s) ns \<in> set (calls s')"
    then obtain code' ns where new: "executed (ext s') = executed (ext s) @ [code']"
      "validator tokens code' (cls_ALLOWED_KEYWORDS s)"
      "Call_execute_safe_code code' (cls_ALLOWED_KEYWORDS s) ns \<in> set (calls s')" by blast
    show ?thesis
    proof (cases "code = code'")
      case True
      with new cls show ?thesis by auto
    next
      case False
      with mem new have "code \<in> set (executed (ext s))" by simp
      with inv have "validator tokens code (cls_ALLOWED_KEYWORDS s) \<and>
          (\<exists>ns. Call_execute_safe_code code (cls_ALLOWED_KEYWORDS s) ns \<in> set (calls s))"
        by (simp add: executed_validated_def)
      with cls ks show ?thesis by auto
    qed
  qed
qed

lemma run_executed_validated:
  assumes "executed_validated tokens s"
  shows "executed_validated tokens (snd (run (with_safe_executor tokens exec c) q s))"
proof -
  let ?c = "with_safe_executor tokens exec c"
  let ?s0 = "print (''Processing query: '' @ q) s"
  let ?s' = "snd (process_query ?c q ?s0)"
  have run: "snd (run ?c q s) = ?s'" by (simp add: run_def)
  from process_query_calls [of ?c q ?s0] obtain ks where
    ks: "calls ?s' = calls s @ ks" by (auto simp: print_sel)
  have cls: "cls_ALLOWED_KEYWORDS ?s' = cls_ALLOWED_KEYWORDS s"
    using process_query_frame [of ?c q ?s0] by (simp add: print_sel)
  from process_query_executed [of tokens exec c q ?s0]
  have "executed (ext ?s') = executed (ext s) \<or>
     (\<exists>code ns. executed (ext ?s') = executed (ext s) @ [code] \<and>
        validator tokens code (cls_ALLOWED_KEYWORDS s) \<and>
        Call_execute_safe_code code (cls_ALLOWED_KEYWORDS s) ns \<in> set (calls ?s'))"
    by (fastforce simp: print_sel)
  with assms cls ks show ?thesis
    unfolding run by (rule executed_validated_step)
qed

lemma run_all_executed_validated:
  assumes "executed_validated tokens s"
  shows "executed_validated tokens (snd (run_all (with_safe_executor tokens exec c) qs s))"
  using assms
proof (induction qs arbitrary: s)
  case Nil
  then show ?case by simp
next
  case (Cons q qs)
  let ?c = "with_safe_executor tokens exec c"
  obtain r s1 where run: "run ?c q s = (r, s1)" by (cases "run ?c q s")
  from run_executed_validated [OF Cons.prems, of exec c q] run
  have s1: "executed_validated tokens s1" by simp
  show ?case
  proof (cases r)
    case (Inl e)
    with run s1 show ?thesis by simp
  next
    case (Inr u)
    with run Cons.IH [OF s1] show ?thesis by simp
  qed
qed

lemma validator_iff:
  "validator tokens code allowed = (code \<noteq> [] \<and> (\<forall>t \<in> set (tokens code). t \<in> set allowed))"
  by (auto simp: validator_def disallowed_tokens_def filter_empty_conv)

lemma example_tokens:
  "ident_tokens ''df.plot()'' = [''df'', ''plot'']"
  "ident_tokens ''os.system()'' = [''os'', ''system'']"
  by code_simp+

lemma example_queries_no_sale_price:
  "\<not> contains ''sale price'' (lower ''draw the chart'')"
  "\<not> contains ''sale price'' (lower ''delete everything'')"
  by code_simp+

lemma example_validation:
  "validator ident_tokens ''df.plot()'' ALLOWED_KEYWORDS"
  "\<not> validator ident_tokens ''os.system()'' ALLOWED_KEYWORDS"
  "disallowed_tokens ident_tokens ''os.system()'' ALLOWED_KEYWORDS = [''os'', ''system'']"
  by (simp_all add: validator_def disallowed_tokens_def example_tokens ALLOWED_KEYWORDS_def)

section \<open>Properties\<close>

text \<open>
  C1, as amended. With the executor of the spec in place of
  \<^verbatim>\<open>CodeExecutor.execute_safe_code\<close>: \<^verbatim>\<open>PlotAgent\<close> hands an extracted snippet to the
  executor only through \<^verbatim>\<open>execute_safe_code\<close>, and always together with the class
  attribute \<^verbatim>\<open>ALLOWED_KEYWORDS\<close>; over any sequence of queries, every snippet the
  executor has run is non-empty, has all its tokens in that list, and came through such
  a call; one query runs at most one snippet on this path; and a snippet with a token
  outside the list is not run by the executor at all: the executor raises, and the
  namespace and the state are as before the call. As stated, for every execution of
  generated code, the claim fails: the agent is built with
  \<^verbatim>\<open>allow_dangerous_code=True\<close>, and code it runs by itself inside \<^verbatim>\<open>invoke\<close> does
  not pass through \<^verbatim>\<open>execute_safe_code\<close>. In the example below the interpreter has run
  \<open>os.system()\<close>, which the validator rejects and the executor did not run.
\<close>

theorem execution_gated_by_validation:
  "(\<forall>code al ns.
      Call_execute_safe_code code al ns
        \<in> set (new_calls s (snd (run_all (with_safe_executor tokens exec c) qs s))) \<longrightarrow>
      al = cls_ALLOWED_KEYWORDS s) \<and>
   (executed_validated tokens s \<longrightarrow>
      executed_validated tokens (snd (run_all (with_safe_executor tokens exec c) qs s))) \<and>
   (\<forall>code \<in> set (executed (ext (snd (run_all (with_safe_executor tokens exec c) qs
                    (initial_state a \<lparr>executed = [], inner = y\<rparr>))))).
      validator tokens code ALLOWED_KEYWORDS \<and>
      (\<exists>ns. Call_execute_safe_code code ALLOWED_KEYWORDS ns
              \<in> set (calls (snd (run_all (with_safe_executor tokens exec c) qs
                     (initial_state a \<lparr>executed = [], inner = y\<rparr>)))))) \<and>
   (executed (ext (snd (process_query (with_safe_executor tokens exec c) q s))) =
      executed (ext s) \<or>
    (\<exists>out code.
       executed (ext (snd (process_query (with_safe_executor tokens exec c) q s))) =
         executed (ext s) @ [code] \<and>
       validator tokens code (cls_ALLOWED_KEYWORDS s) \<and>
       calls (snd (process_query (with_safe_executor tokens exec c) q s)) =
         calls s @ [Call_invoke (data_analysis_agent (self s)) q,
                    Call_extract_code_snippet out,
                    Call_execute_safe_code code (cls_ALLOWED_KEYWORDS s)
                      (execution_namespace s)])) \<and>
   (\<not> validator tokens code allowed \<longrightarrow>
      execute_safe_code_spec tokens exec code allowed ns b =
        (Inl (OtherException ''ValidationRejected''
                (join '', '' (disallowed_tokens tokens code allowed))), ns, b)) \<and>
   validator tokens code allowed =
     (code \<noteq> [] \<and> (\<forall>t \<in> set (tokens code). t \<in> set allowed))"
proof -
  let ?c = "with_safe_executor tokens exec c"
  let ?s0 = "initial_state a \<lparr>executed = [], inner = y\<rparr>"
  have 1: "al = cls_ALLOWED_KEYWORDS s"
    if "Call_execute_safe_code code al ns \<in> set (new_calls s (snd (run_all ?c qs s)))"
    for code al ns
    using run_all_execute_calls [OF that] by simp
  have 2: "executed_validated tokens (snd (run_all ?c qs s))" if "executed_validated tokens s"
    using that by (rule run_all_executed_validated)
  have "executed_validated tokens ?s0"
    by (simp add: executed_validated_def initial_state_def)
  then have "executed_validated tokens (snd (run_all ?c qs ?s0))"
    by (rule run_all_executed_validated)
  moreover have "cls_ALLOWED_KEYWORDS (snd (run_all ?c qs ?s0)) = ALLOWED_KEYWORDS"
    using run_all_frame [of ?c qs ?s0] by (simp add: initial_state_def)
  ultimately have 3: "\<forall>code \<in> set (executed (ext (snd (run_all ?c qs ?s0)))).
      validator tokens code ALLOWED_KEYWORDS \<and>
      (\<exists>ns. Call_execute_safe_code code ALLOWED_KEYWORDS ns
              \<in> set (calls (snd (run_all ?c qs ?s0))))"
    by (simp add: executed_validated_def)
  note 4 = process_query_executed [of tokens exec c q s]
  have 5: "execute_safe_code_spec tokens exec code allowed ns b =
        (Inl (OtherException ''ValidationRejected''
                (join '', '' (disallowed_tokens tokens code allowed))), ns, b)"
    if "\<not> validator tokens code allowed"
    using that by (rule rejected_not_executed)
  note 6 = validator_iff [of tokens code allowed]
  from 1 2 3 4 5 6 show ?thesis by blast
qed

theorem execution_gated_by_validation_witness:
  "executed (ext (snd (run_all
     (with_safe_executor ident_tokens (\<lambda>code ns y. (Inr (), ns, y @ [code]))
        (example_collab\<lparr>agent_invoke := (\<lambda>a q x.
           (Inr [''output'' \<mapsto> (if q = ''delete everything'' then ''os.system()''
                                else ''df.plot()'')], x))\<rparr>))
     [''draw the chart'', ''delete everything'']
     (initial_state example_agent \<lparr>executed = [], inner = []\<rparr>)))) = [''df.plot()''] \<and>
   printed (snd (run_all
     (with_safe_executor ident_tokens (\<lambda>code ns y. (Inr (), ns, y @ [code]))
        (example_collab\<lparr>agent_invoke := (\<lambda>a q x.
           (Inr [''output'' \<mapsto> (if q = ''delete everything'' then ''os.system()''
                                else ''df.plot()'')], x))\<rparr>))
     [''draw the chart'', ''delete everything'']
     (initial_state example_agent \<lparr>executed = [], inner = []\<rparr>))) =
     [''Processing query: draw the chart'',
      ''Generated code:'' @ [CHR 0x0A] @ ''df.plot()'',
      ''Processing query: delete everything'',
      ''Generated code:'' @ [CHR 0x0A] @ ''os.system()'',
      ''An error occurred while processing the query: os, system''] \<and>
   validator ident_tokens ''df.plot()'' ALLOWED_KEYWORDS"
proof -
  let ?exec = "\<lambda>(code :: string) (ns :: namespace) (y :: string list).
                 (Inr () :: exn + unit, ns, y @ [code])"
  let ?base = "example_collab\<lparr>agent_invoke := (\<lambda>a q x.
           (Inr [''output'' \<mapsto> (if q = ''delete everything'' then ''os.system()''
                                else ''df.plot()'')], x))\<rparr>"
  let ?c = "with_safe_executor ident_tokens ?exec ?base"
  let ?s = "initial_state example_agent \<lparr>executed = [], inner = ([] :: string list)\<rparr>"
  let ?ns = "[(''df'', DataFrame 2), (''pd'', Module ''pandas''),
              (''plt'', Module ''matplotlib.pyplot'')]"
  let ?s1 = "\<lparr> cls_ALLOWED_KEYWORDS = ALLOWED_KEYWORDS, self = example_agent,
        printed = [''Processing query: draw the chart'',
                   ''Generated code:'' @ [CHR 0x0A] @ ''df.plot()''],
        calls = [Call_invoke 3 ''draw the chart'', Call_extract_code_snippet ''df.plot()'',
                 Call_execute_safe_code ''df.plot()'' ALLOWED_KEYWORDS ?ns],
        ext = \<lparr>executed = [''df.plot()''], inner = [''df.plot()'']\<rparr> \<rparr>"
  let ?s2 = "\<lparr> cls_ALLOWED_KEYWORDS = ALLOWED_KEYWORDS, self = example_agent,
        printed = [''Processing query: draw the chart'',
                   ''Generated code:'' @ [CHR 0x0A] @ ''df.plot()'',
                   ''Processing query: delete everything'',
                   ''Generated code:'' @ [CHR 0x0A] @ ''os.system()'',
                   ''An error occurred while processing the query: os, system''],
        calls = [Call_invoke 3 ''draw the chart'', Call_extract_code_snippet ''df.plot()'',
                 Call_execute_safe_code ''df.plot()'' ALLOWED_KEYWORDS ?ns,
                 Call_invoke 3 ''delete everything'', Call_extract_code_snippet ''os.system()'',
                 Call_execute_safe_code ''os.system()'' ALLOWED_KEYWORDS ?ns],
        ext = \<lparr>executed = [''df.plot()''], inner = [''df.plot()'']\<rparr> \<rparr>"
  have r1: "run ?c ''draw the chart'' ?s = (Inr (), ?s1)"
    by (simp add: run_def process_query_def process_query_try_def
        extract_and_execute_code_def record_call_def print_def execution_namespace_def
        get_output_def Let_def with_safe_executor_def on_inner_def execute_safe_code_spec_def
        example_collab_def example_agent_def initial_state_def
        example_queries_no_sale_price example_validation)
  have r2: "run ?c ''delete everything'' ?s1 = (Inr (), ?s2)"
    by (simp add: run_def process_query_def process_query_try_def
        extract_and_execute_code_def record_call_def print_def execution_namespace_def
        get_output_def Let_def with_safe_executor_def on_inner_def execute_safe_code_spec_def
        example_collab_def example_agent_def
        example_queries_no_sale_price example_validation)
  have all: "run_all ?c [''draw the chart'', ''delete everything''] ?s = (Inr (), ?s2)"
    by (simp only: run_all.simps r1 r2 prod.case sum.case)
  note T = execution_gated_by_validation
    [where tokens = ident_tokens and exec = ?exec and c = ?base and a = example_agent
       and y = "[] :: string list" and qs = "[''draw the chart'', ''delete everything'']"
       and s = ?s and q = "[]" and code = "[]" and allowed = "[]" and ns = "[]"
       and b = "\<lparr>executed = [], inner = []\<rparr>"]
  from T have gated: "\<forall>code \<in> set (executed (ext (snd (run_all ?c
        [''draw the chart'', ''delete everything''] ?s)))).
      validator ident_tokens code ALLOWED_KEYWORDS \<and>
      (\<exists>ns. Call_execute_safe_code code ALLOWED_KEYWORDS ns
              \<in> set (calls (snd (run_all ?c [''draw the chart'', ''delete everything''] ?s))))"
    by (elim conjE)
  have ex: "executed (ext (snd (run_all ?c [''draw the chart'', ''delete everything''] ?s))) =
      [''df.plot()'']"
    by (subst all) simp
  have pr: "printed (snd (run_all ?c [''draw the chart'', ''delete everything''] ?s)) =
     [''Processing query: draw the chart'',
      ''Generated code:'' @ [CHR 0x0A] @ ''df.plot()'',
      ''Processing query: delete everything'',
      ''Generated code:'' @ [CHR 0x0A] @ ''os.system()'',
      ''An error occurred while processing the query: os, system'']"
    by (subst all) simp
  from gated ex have "validator ident_tokens ''df.plot()'' ALLOWED_KEYWORDS"
    by simp
  with ex pr show ?thesis by (simp only: simp_thms)
qed


theorem agent_runs_unvalidated_code_counterexample:
  "inner (ext (snd (process_query
     (with_safe_executor ident_tokens example_interpreter
        (example_collab\<lparr>agent_invoke := example_repl_agent\<rparr>))
     ''draw the chart''
     (initial_state example_agent \<lparr>executed = [], inner = []\<rparr>)))) = [''os.system()''] \<and>
   \<not> validator ident_tokens ''os.system()'' ALLOWED_KEYWORDS \<and>
   executed (ext (snd (process_query
     (with_safe_executor ident_tokens example_interpreter
        (example_collab\<lparr>agent_invoke := example_repl_agent\<rparr>))
     ''draw the chart''
     (initial_state example_agent \<lparr>executed = [], inner = []\<rparr>)))) = [] \<and>
   calls (snd (process_query
     (with_safe_executor ident_tokens example_interpreter
        (example_collab\<lparr>agent_invoke := example_repl_agent\<rparr>))
     ''draw the chart''
     (initial_state example_agent \<lparr>executed = [], inner = []\<rparr>))) =
     [Call_invoke 3 ''draw the chart'',
      Call_extract_code_snippet ''os.system()'',
      Call_execute_safe_code ''os.system()'' ALLOWED_KEYWORDS
        [(''df'', DataFrame 2), (''pd'', Module ''pandas''),
         (''plt'', Module ''matplotlib.pyplot'')]] \<and>
   printed (snd (process_query
     (with_safe_executor ident_tokens example_interpreter
        (example_collab\<lparr>agent_invoke := example_repl_agent\<rparr>))
     ''draw the chart''
     (initial_state example_agent \<lparr>executed = [], inner = []\<rparr>))) =
     [''Generated code:'' @ [CHR 0x0A] @ ''os.system()'',
      ''An error occurred while processing the query: os, system'']"
proof -
  let ?c = "with_safe_executor ident_tokens example_interpreter
        (example_collab\<lparr>agent_invoke := example_repl_agent\<rparr>)"
  let ?s = "initial_state example_agent \<lparr>executed = [], inner = ([] :: string list)\<rparr>"
  have run: "process_query ?c ''draw the chart'' ?s =
     (Inr (),
      \<lparr> cls_ALLOWED_KEYWORDS = ALLOWED_KEYWORDS, self = example_agent,
        printed = [''Generated code:'' @ [CHR 0x0A] @ ''os.system()'',
                   ''An error occurred while processing the query: os, system''],
        calls = [Call_invoke 3 ''draw the chart'',
                 Call_extract_code_snippet ''os.system()'',
                 Call_execute_safe_code ''os.system()'' ALLOWED_KEYWORDS
                   [(''df'', DataFrame 2), (''pd'', Module ''pandas''),
                    (''plt'', Module ''matplotlib.pyplot'')]],
        ext = \<lparr>executed = [], inner = [''os.system()'']\<rparr> \<rparr>)"
    by (simp add: process_query_def process_query_try_def
        extract_and_execute_code_def record_call_def print_def execution_namespace_def
        get_output_def Let_def with_safe_executor_def on_inner_def execute_safe_code_spec_def
        example_collab_def example_agent_def initial_state_def example_repl_agent_def
        example_interpreter_def example_queries_no_sale_price example_validation)
  show ?thesis
    by (simp only: run snd_conv state.simps sandbox.simps example_validation simp_thms)
qed

text \<open>
  C9. With none of the four variables set, the client gets the default base URL, the
  default model name, no API key and temperature \<open>0.0\<close>. With \<^verbatim>\<open>PANDAS_TEMPERATURE\<close>
  set to \<open>v\<close>, the temperature is \<^verbatim>\<open>float(v)\<close> when that conversion succeeds, and the
  conversion's exception leaves \<^verbatim>\<open>_initialize_llm\<close> otherwise; \<^verbatim>\<open>PLOT_API_KEY\<close> is
  passed on as it is, \<open>None\<close> when unset.
\<close>

theorem initialize_llm_defaults:
  "(env ''PANDAS_BASE_URL'' = None \<and> env ''PANDAS_MODEL'' = None \<and>
    env ''PLOT_API_KEY'' = None \<and> env ''PANDAS_TEMPERATURE'' = None \<longrightarrow>
      initialize_llm parse env =
        Inr \<lparr> base_url = ''https://api.opentyphoon.ai/v1'',
              model = ''typhoon-v1.5x-70b-instruct'',
              api_key = None,
              temperature = Finite 0 \<rparr>) \<and>
   (\<forall>cfg. initialize_llm parse env = Inr cfg \<longrightarrow> api_key cfg = env ''PLOT_API_KEY'') \<and>
   (\<forall>v. env ''PANDAS_TEMPERATURE'' = Some v \<longrightarrow>
      (\<forall>t. parse v = Inr t \<longrightarrow>
         (\<exists>cfg. initialize_llm parse env = Inr cfg \<and> temperature cfg = t)) \<and>
      (\<forall>e. parse v = Inl e \<longrightarrow> initialize_llm parse env = Inl e))"
  by (auto simp: initialize_llm_def getenv_def float_of_int_def split: option.splits sum.splits)

theorem initialize_llm_defaults_witness:
  "initialize_llm (float_of_str example_collab) Map.empty =
     Inr \<lparr> base_url = ''https://api.opentyphoon.ai/v1'',
           model = ''typhoon-v1.5x-70b-instruct'',
           api_key = None,
           temperature = Finite 0 \<rparr> \<and>
   (\<exists>cfg. initialize_llm (float_of_str example_collab) [''PANDAS_TEMPERATURE'' \<mapsto> ''0.7''] = Inr cfg \<and>
          temperature cfg = Finite (7 / 10)) \<and>
   initialize_llm (float_of_str example_collab) [''PANDAS_TEMPERATURE'' \<mapsto> ''hot''] =
     Inl (ValueError ''could not convert string to float'')"
proof -
  let ?parse = "float_of_str example_collab"
  have p1: "?parse ''0.7'' = Inr (Finite (7 / 10))"
    by (simp add: example_collab_def)
  have p2: "?parse ''hot'' = Inl (ValueError ''could not convert string to float'')"
    by (simp add: example_collab_def)
  show ?thesis
    using initialize_llm_defaults [of Map.empty ?parse]
      initialize_llm_defaults [of "[''PANDAS_TEMPERATURE'' \<mapsto> ''0.7'']" ?parse]
      initialize_llm_defaults [of "[''PANDAS_TEMPERATURE'' \<mapsto> ''hot'']" ?parse]
      p1 p2
    by simp
qed

text \<open>
  C2. When the extractor returns its empty result for the agent's output (\<open>None\<close> or the
  empty string), \<^verbatim>\<open>_extract_and_execute_code\<close> raises the \<^verbatim>\<open>ValueError\<close> with the
  message "No valid code snippet generated by the agent." after the extractor call
  alone: the executor is not called and the collaborators' state is the one the
  extractor left. In \<^verbatim>\<open>process_query\<close> the query then ends with that message
  printed, and its calls are the agent and the extractor only.
\<close>

theorem empty_snippet_raises:
  "(extract_code_snippet c (get_output response) (ext s) = (Inr snippet, x1) \<and>
    (snippet = None \<or> snippet = Some []) \<longrightarrow>
      extract_and_execute_code c response s =
        (Inl (ValueError ''No valid code snippet generated by the agent.''),
         s\<lparr>calls := calls s @ [Call_extract_code_snippet (get_output response)], ext := x1\<rparr>)) \<and>
   ((\<not> contains ''sale price'' (lower q) \<or>
       (''sale price'' \<in> set (df_columns c (df (self s)) (ext s)) \<and>
        ''country'' \<in> set (df_columns c (df (self s)) (ext s)))) \<and>
    agent_invoke c (data_analysis_agent (self s)) q (ext s) = (Inr response, x0) \<and>
    extract_code_snippet c (get_output response) x0 = (Inr snippet, x1) \<and>
    (snippet = None \<or> snippet = Some []) \<longrightarrow>
      process_query c q s =
        (Inr (),
         s\<lparr>printed := printed s @
              [''An error occurred while processing the query: No valid code snippet generated by the agent.''],
           calls := calls s @ [Call_invoke (data_analysis_agent (self s)) q,
                               Call_extract_code_snippet (get_output response)],
           ext := x1\<rparr>))"
proof (intro conjI impI)
  assume "extract_code_snippet c (get_output response) (ext s) = (Inr snippet, x1) \<and>
    (snippet = None \<or> snippet = Some [])"
  then show "extract_and_execute_code c response s =
        (Inl (ValueError ''No valid code snippet generated by the agent.''),
         s\<lparr>calls := calls s @ [Call_extract_code_snippet (get_output response)], ext := x1\<rparr>)"
    by (auto simp: extract_and_execute_code_def record_call_def Let_def)
next
  assume a: "(\<not> contains ''sale price'' (lower q) \<or>
       (''sale price'' \<in> set (df_columns c (df (self s)) (ext s)) \<and>
        ''country'' \<in> set (df_columns c (df (self s)) (ext s)))) \<and>
    agent_invoke c (data_analysis_agent (self s)) q (ext s) = (Inr response, x0) \<and>
    extract_code_snippet c (get_output response) x0 = (Inr snippet, x1) \<and>
    (snippet = None \<or> snippet = Some [])"
  let ?s2 = "record_call (Call_invoke (data_analysis_agent (self s)) q) s"
  from a have "process_query_try c q s = extract_and_execute_code c response (?s2\<lparr>ext := x0\<rparr>)"
    by (auto simp: process_query_try_def validate_columns_def record_call_def Let_def)
  moreover from a have "extract_and_execute_code c response (?s2\<lparr>ext := x0\<rparr>) =
      (Inl (ValueError ''No valid code snippet generated by the agent.''),
       ?s2\<lparr>calls := calls ?s2 @ [Call_extract_code_snippet (get_output response)], ext := x1\<rparr>)"
    by (auto simp: extract_and_execute_code_def record_call_def Let_def)
  ultimately show "process_query c q s =
        (Inr (),
         s\<lparr>printed := printed s @
              [''An error occurred while processing the query: No valid code snippet generated by the agent.''],
           calls := calls s @ [Call_invoke (data_analysis_agent (self s)) q,
                               Call_extract_code_snippet (get_output response)],
           ext := x1\<rparr>)"
    by (simp add: process_query_def print_def record_call_def)
qed

theorem empty_snippet_raises_witness:
  "process_query (example_collab
       \<lparr>agent_invoke := (\<lambda>a q x. (Inr [''output'' \<mapsto> ''Here is your chart idea but no code.''], x)),
        extract_code_snippet := (\<lambda>t x. (Inr None, x))\<rparr>)
     ''plot bar chart of sale price by country with unique color''
     (initial_state example_agent []) =
   (Inr (),
    (initial_state example_agent [])
      \<lparr>printed :=
         [''An error occurred while processing the query: No valid code snippet generated by the agent.''],
       calls := [Call_invoke 3 ''plot bar chart of sale price by country with unique color'',
                 Call_extract_code_snippet ''Here is your chart idea but no code.'']\<rparr>)"
  using empty_snippet_raises
    [of "example_collab
       \<lparr>agent_invoke := (\<lambda>a q x. (Inr [''output'' \<mapsto> ''Here is your chart idea but no code.''], x)),
        extract_code_snippet := (\<lambda>t x. (Inr None, x))\<rparr>"
        "[''output'' \<mapsto> ''Here is your chart idea but no code.'']"
        "initial_state example_agent []" None "[]"
        "''plot bar chart of sale price by country with unique color''" "[]"]
  by (simp add: example_collab_def example_agent_def initial_state_def get_output_def)

text \<open>
  C3, as amended. \<^verbatim>\<open>process_query\<close> never lets an instance of \<^verbatim>\<open>Exception\<close> reach its
  caller: whatever the \<^verbatim>\<open>try\<close> body raises of that kind (the two \<^verbatim>\<open>ValueError\<close>s
  of \<^verbatim>\<open>PlotAgent\<close>, or an \<^verbatim>\<open>Exception\<close> of the agent, the extractor or the
  executor) is printed as "An error occurred while processing the query: ..." and
  \<^verbatim>\<open>process_query\<close> returns. An exception that does leave \<^verbatim>\<open>process_query\<close> is not
  an \<^verbatim>\<open>Exception\<close> and was raised by a collaborator, and every exception of the
  \<^verbatim>\<open>try\<close> body that is not an \<^verbatim>\<open>Exception\<close> does leave it. As stated, for every exception,
  the claim fails: the handler is \<^verbatim>\<open>except Exception\<close>, and a \<^verbatim>\<open>KeyboardInterrupt\<close>
  during the agent's call goes through it.
\<close>

theorem process_query_catches_Exception:
  "(\<forall>e. fst (process_query c q s) = Inl e \<longrightarrow>
      \<not> is_Exception e \<and>
      ((\<exists>a x. fst (agent_invoke c a q x) = Inl e) \<or>
       (\<exists>t x. fst (extract_code_snippet c t x) = Inl e) \<or>
       (\<exists>code al ns x. fst (execute_safe_code c code al ns x) = Inl e))) \<and>
   (\<forall>e s1. process_query_try c q s = (Inl e, s1) \<and> is_Exception e \<longrightarrow>
      process_query c q s =
        (Inr (), print (''An error occurred while processing the query: '' @ str_exn e) s1)) \<and>
   (\<forall>u s1. process_query_try c q s = (Inr u, s1) \<longrightarrow> process_query c q s = (Inr (), s1)) \<and>
   (\<forall>e s1. process_query_try c q s = (Inl e, s1) \<and> \<not> is_Exception e \<longrightarrow>
      process_query c q s = (Inl e, s1))"
proof (intro conjI allI impI)
  fix e assume leaves: "fst (process_query c q s) = Inl e"
  obtain r s1 where t: "process_query_try c q s = (r, s1)" by (cases "process_query_try c q s")
  from leaves t have raised: "fst (process_query_try c q s) = Inl e" and noexc: "\<not> is_Exception e"
    by (auto simp: process_query_def split: sum.splits if_splits)
  show "\<not> is_Exception e" by (rule noexc)
  from try_raises_origin [OF raised] noexc
  show "(\<exists>a x. fst (agent_invoke c a q x) = Inl e) \<or>
        (\<exists>t x. fst (extract_code_snippet c t x) = Inl e) \<or>
        (\<exists>code al ns x. fst (execute_safe_code c code al ns x) = Inl e)"
    by auto
next
  fix e s1 assume "process_query_try c q s = (Inl e, s1) \<and> is_Exception e"
  then show "process_query c q s =
      (Inr (), print (''An error occurred while processing the query: '' @ str_exn e) s1)"
    by (simp add: process_query_def)
next
  fix u s1 assume "process_query_try c q s = (Inr u, s1)"
  then show "process_query c q s = (Inr (), s1)"
    by (simp add: process_query_def)
next
  fix e s1 assume "process_query_try c q s = (Inl e, s1) \<and> \<not> is_Exception e"
  then show "process_query c q s = (Inl e, s1)"
    by (simp add: process_query_def)
qed

theorem process_query_catches_Exception_witness:
  "process_query
     (example_collab\<lparr>execute_safe_code :=
        (\<lambda>code allowed ns x. (Inl (OtherException ''KeyError'' ''sale price''), ns, x))\<rparr>)
     ''plot bar chart of sale price by country with unique color''
     (initial_state example_agent []) =
   (Inr (),
    (initial_state example_agent [])
      \<lparr>printed := [''Generated code:'' @ [CHR 0x0A] @ ''df.plot()'',
                   ''An error occurred while processing the query: sale price''],
       calls := [Call_invoke 3 ''plot bar chart of sale price by country with unique color'',
                 Call_extract_code_snippet ''df.plot()'',
                 Call_execute_safe_code ''df.plot()'' ALLOWED_KEYWORDS
                   [(''df'', DataFrame 2), (''pd'', Module ''pandas''),
                    (''plt'', Module ''matplotlib.pyplot'')]]\<rparr>)"
proof -
  let ?c = "example_collab\<lparr>execute_safe_code :=
        (\<lambda>code allowed ns x. (Inl (OtherException ''KeyError'' ''sale price''), ns, x))\<rparr>"
  let ?q = "''plot bar chart of sale price by country with unique color''"
  let ?s = "initial_state example_agent ([] :: string list)"
  have t: "process_query_try ?c ?q ?s =
     (Inl (OtherException ''KeyError'' ''sale price''),
      ?s\<lparr>printed := [''Generated code:'' @ [CHR 0x0A] @ ''df.plot()''],
         calls := [Call_invoke 3 ?q, Call_extract_code_snippet ''df.plot()'',
                   Call_execute_safe_code ''df.plot()'' ALLOWED_KEYWORDS
                     [(''df'', DataFrame 2), (''pd'', Module ''pandas''),
                      (''plt'', Module ''matplotlib.pyplot'')]]\<rparr>)"
    by (simp add: process_query_try_def validate_columns_def extract_and_execute_code_def
        record_call_def print_def execution_namespace_def get_output_def Let_def
        example_collab_def example_agent_def initial_state_def main_query_mentions_sale_price)
  from process_query_catches_Exception [of ?c ?q ?s] t show ?thesis
    by (simp add: print_def initial_state_def)
qed

theorem process_query_propagates_counterexample:
  "process_query
     (example_collab\<lparr>agent_invoke := (\<lambda>a q x. (Inl (NonException ''KeyboardInterrupt'' []), x))\<rparr>)
     ''plot bar chart of sale price by country with unique color''
     (initial_state example_agent []) =
   (Inl (NonException ''KeyboardInterrupt'' []),
    (initial_state example_agent [])
      \<lparr>calls := [Call_invoke 3 ''plot bar chart of sale price by country with unique color'']\<rparr>)"
  by (simp add: process_query_def process_query_try_def validate_columns_def record_call_def
      example_collab_def example_agent_def initial_state_def main_query_mentions_sale_price)

text \<open>
  C6. When the lowercased query contains \<open>sale price\<close>, the columns \<open>sale price\<close> and
  \<open>country\<close> are looked up in the dataframe before the agent is called. If some are
  missing, \<^verbatim>\<open>_validate_columns\<close> raises the \<^verbatim>\<open>ValueError\<close> "Missing required columns: "
  followed by all the missing ones, joined by ", ", in the order of the list; the
  \<^verbatim>\<open>try\<close> body of \<^verbatim>\<open>process_query\<close> ends there with the state unchanged, so the
  agent is not called, and the handler of \<^verbatim>\<open>process_query\<close> prints the error. If none
  is missing, the first call of the query is the agent's. When the query does not
  contain \<open>sale price\<close>, the columns are not looked at: \<^verbatim>\<open>process_query\<close> does the same
  whatever the columns are, and its first call is the agent's.
\<close>

theorem sale_price_column_check:
  "(let missing = filter (\<lambda>col. col \<notin> set (df_columns c (df (self s)) (ext s)))
                    [''sale price'', ''country'']
    in (contains ''sale price'' (lower q) \<and> missing \<noteq> [] \<longrightarrow>
          validate_columns c [''sale price'', ''country''] s =
            (Inl (ValueError (''Missing required columns: '' @ join '', '' missing)), s) \<and>
          process_query_try c q s =
            (Inl (ValueError (''Missing required columns: '' @ join '', '' missing)), s) \<and>
          process_query c q s =
            (Inr (), print (''An error occurred while processing the query: '' @
                            ''Missing required columns: '' @ join '', '' missing) s) \<and>
          calls (snd (process_query c q s)) = calls s) \<and>
       (contains ''sale price'' (lower q) \<and> missing = [] \<longrightarrow>
          validate_columns c [''sale price'', ''country''] s = (Inr (), s) \<and>
          (\<exists>ks. calls (snd (process_query c q s)) =
                 calls s @ Call_invoke (data_analysis_agent (self s)) q # ks)) \<and>
       (\<not> contains ''sale price'' (lower q) \<longrightarrow>
          (\<forall>cols. process_query (c\<lparr>df_columns := cols\<rparr>) q s = process_query c q s) \<and>
          (\<exists>ks. calls (snd (process_query c q s)) =
                 calls s @ Call_invoke (data_analysis_agent (self s)) q # ks)))"
proof -
  let ?ms = "filter (\<lambda>col. col \<notin> set (df_columns c (df (self s)) (ext s)))
               [''sale price'', ''country'']"
  have vc: "validate_columns c [''sale price'', ''country''] s =
      (if ?ms \<noteq> []
       then (Inl (ValueError (''Missing required columns: '' @ join '', '' ?ms)), s)
       else (Inr (), s))"
    unfolding validate_columns_def Let_def ..
  have a: "process_query_try c q s =
            (Inl (ValueError (''Missing required columns: '' @ join '', '' ?ms)), s) \<and>
          process_query c q s =
            (Inr (), print (''An error occurred while processing the query: '' @
                            ''Missing required columns: '' @ join '', '' ?ms) s)"
    if h: "contains ''sale price'' (lower q)" "?ms \<noteq> []"
  proof -
    from h vc have t: "process_query_try c q s =
        (Inl (ValueError (''Missing required columns: '' @ join '', '' ?ms)), s)"
      unfolding process_query_try_def by simp
    then show ?thesis unfolding process_query_def by simp
  qed
  have b: "\<exists>ks. calls (snd (process_query c q s)) =
                 calls s @ Call_invoke (data_analysis_agent (self s)) q # ks"
    if "\<not> contains ''sale price'' (lower q) \<or> ?ms = []"
    using try_invokes_first [OF that] by (simp add: handler_makes_no_call)
  have d: "process_query (c\<lparr>df_columns := cols\<rparr>) q s = process_query c q s"
    if h: "\<not> contains ''sale price'' (lower q)" for cols
  proof -
    have "process_query_try (c\<lparr>df_columns := cols\<rparr>) q s = process_query_try c q s"
      using h by (simp add: process_query_try_def extract_ignores_columns Let_def
          split: prod.splits sum.splits)
    then show ?thesis by (simp add: process_query_def)
  qed
  show ?thesis
    unfolding Let_def
  proof (intro conjI impI allI)
    assume h: "contains ''sale price'' (lower q) \<and> ?ms \<noteq> []"
    then show "validate_columns c [''sale price'', ''country''] s =
            (Inl (ValueError (''Missing required columns: '' @ join '', '' ?ms)), s)"
      using vc by simp
    from h a show "process_query_try c q s =
            (Inl (ValueError (''Missing required columns: '' @ join '', '' ?ms)), s)" by blast
    from h a show "process_query c q s =
            (Inr (), print (''An error occurred while processing the query: '' @
                            ''Missing required columns: '' @ join '', '' ?ms) s)" by blast
    from h a have "process_query c q s =
            (Inr (), print (''An error occurred while processing the query: '' @
                            ''Missing required columns: '' @ join '', '' ?ms) s)" by blast
    then show "calls (snd (process_query c q s)) = calls s" by (simp add: print_def)
  next
    assume h: "contains ''sale price'' (lower q) \<and> ?ms = []"
    then show "validate_columns c [''sale price'', ''country''] s = (Inr (), s)"
      using vc by simp
    from h b show "\<exists>ks. calls (snd (process_query c q s)) =
                 calls s @ Call_invoke (data_analysis_agent (self s)) q # ks" by blast
  next
    fix cols assume "\<not> contains ''sale price'' (lower q)"
    then show "process_query (c\<lparr>df_columns := cols\<rparr>) q s = process_query c q s" by (rule d)
  next
    assume "\<not> contains ''sale price'' (lower q)"
    with b show "\<exists>ks. calls (snd (process_query c q s)) =
                 calls s @ Call_invoke (data_analysis_agent (self s)) q # ks" by blast
  qed
qed

theorem sale_price_column_check_witness:
  "process_query (example_collab\<lparr>df_columns := (\<lambda>d x. [''sale price'', ''city''])\<rparr>)
     ''plot bar chart of sale price by country with unique color''
     (initial_state example_agent []) =
   (Inr (),
    (initial_state example_agent [])
      \<lparr>printed :=
         [''An error occurred while processing the query: Missing required columns: country'']\<rparr>) \<and>
   process_query (example_collab\<lparr>df_columns := (\<lambda>d x. [''city''])\<rparr>)
     ''Plot a histogram of SALES'' (initial_state example_agent []) =
   process_query example_collab ''Plot a histogram of SALES'' (initial_state example_agent [])"
proof -
  let ?s = "initial_state example_agent ([] :: string list)"
  let ?c = "example_collab\<lparr>df_columns := (\<lambda>d x. [''sale price'', ''city''])\<rparr>"
  have cols: "df_columns ?c (df (self ?s)) (ext ?s) = [''sale price'', ''city'']"
    by simp
  have 1: "process_query ?c ''plot bar chart of sale price by country with unique color'' ?s =
     (Inr (), ?s\<lparr>printed :=
         [''An error occurred while processing the query: Missing required columns: country'']\<rparr>)"
    using sale_price_column_check
       [of ?c ?s "''plot bar chart of sale price by country with unique color''"]
      main_query_mentions_sale_price
    by (simp add: cols print_def initial_state_def)
  have 2: "process_query (example_collab\<lparr>df_columns := (\<lambda>d x. [''city''])\<rparr>)
     ''Plot a histogram of SALES'' ?s = process_query example_collab ''Plot a histogram of SALES'' ?s"
    using sale_price_column_check [of example_collab ?s "''Plot a histogram of SALES''"]
      histogram_query_no_sale_price
    by (simp add: Let_def)
  from 1 2 show ?thesis by simp
qed

text \<open>
  C7. One call of \<^verbatim>\<open>process_query\<close> adds to the trace a prefix of: the agent's
  \<^verbatim>\<open>invoke\<close> on the query, the extractor, \<^verbatim>\<open>execute_safe_code\<close>. So the agent is invoked
  at most once and the snippet is handed to the executor at most once, and the handler
  makes no call: after a failure nothing is tried again.
\<close>

theorem one_attempt_per_query:
  "\<exists>ks. calls (snd (process_query c q s)) = calls s @ ks \<and>
         query_calls s q ks \<and>
         length (filter is_invoke ks) \<le> 1 \<and>
         length (filter is_execute ks) \<le> 1 \<and>
         calls (snd (process_query c q s)) = calls (snd (process_query_try c q s))"
proof -
  from process_query_calls [of c q s] obtain ks where
    ks: "calls (snd (process_query c q s)) = calls s @ ks" "query_calls s q ks" by blast
  from ks(2) have "length (filter is_invoke ks) \<le> 1 \<and> length (filter is_execute ks) \<le> 1"
    by (auto simp: query_calls_def)
  with ks handler_makes_no_call [of c q s] show ?thesis by blast
qed

theorem one_attempt_per_query_witness:
  "calls (snd (process_query
     (example_collab\<lparr>execute_safe_code :=
        (\<lambda>code allowed ns x. (Inl (OtherException ''KeyError'' ''sale price''), ns, x))\<rparr>)
     ''plot bar chart of sale price by country with unique color''
     (initial_state example_agent []))) =
   [Call_invoke 3 ''plot bar chart of sale price by country with unique color'',
    Call_extract_code_snippet ''df.plot()'',
    Call_execute_safe_code ''df.plot()'' ALLOWED_KEYWORDS
      [(''df'', DataFrame 2), (''pd'', Module ''pandas''),
       (''plt'', Module ''matplotlib.pyplot'')]]"
proof -
  let ?c = "example_collab\<lparr>execute_safe_code :=
        (\<lambda>code allowed ns x. (Inl (OtherException ''KeyError'' ''sale price''), ns, x))\<rparr>"
  let ?q = "''plot bar chart of sale price by country with unique color''"
  let ?s = "initial_state example_agent ([] :: string list)"
  have t: "calls (snd (process_query_try ?c ?q ?s)) =
     [Call_invoke 3 ?q, Call_extract_code_snippet ''df.plot()'',
      Call_execute_safe_code ''df.plot()'' ALLOWED_KEYWORDS
        [(''df'', DataFrame 2), (''pd'', Module ''pandas''),
         (''plt'', Module ''matplotlib.pyplot'')]]"
    by (simp add: process_query_try_def validate_columns_def extract_and_execute_code_def
        record_call_def print_def execution_namespace_def get_output_def Let_def
        example_collab_def example_agent_def initial_state_def main_query_mentions_sale_price)
  from one_attempt_per_query [of ?c ?q ?s] t show ?thesis by auto
qed

text \<open>
  C4. The class attribute \<^verbatim>\<open>ALLOWED_KEYWORDS\<close> is the list of the twelve keywords
  \<open>df\<close>, \<open>iloc\<close>, \<open>to_dict\<close>, \<open>mean\<close>, \<open>mode\<close>, \<open>std\<close>, \<open>max\<close>, \<open>min\<close>, \<open>color\<close>, \<open>plot\<close>,
  \<open>unique\<close>, \<open>groupby\<close> when the program starts. No method of \<^verbatim>\<open>PlotAgent\<close> changes
  it, over any sequence of queries, and every call of \<^verbatim>\<open>execute_safe_code\<close> gets
  this list.
\<close>

theorem allowed_keywords_fixed:
  "cls_ALLOWED_KEYWORDS (initial_state a x) =
     [''df'', ''iloc'', ''to_dict'', ''mean'', ''mode'', ''std'',
      ''max'', ''min'', ''color'', ''plot'', ''unique'', ''groupby''] \<and>
   cls_ALLOWED_KEYWORDS (snd (validate_columns c required_columns s)) = cls_ALLOWED_KEYWORDS s \<and>
   cls_ALLOWED_KEYWORDS (snd (extract_and_execute_code c response s)) = cls_ALLOWED_KEYWORDS s \<and>
   cls_ALLOWED_KEYWORDS (snd (process_query c q s)) = cls_ALLOWED_KEYWORDS s \<and>
   cls_ALLOWED_KEYWORDS (snd (run c q s)) = cls_ALLOWED_KEYWORDS s \<and>
   cls_ALLOWED_KEYWORDS (snd (run_all c qs s)) = cls_ALLOWED_KEYWORDS s \<and>
   (\<forall>code al ns.
      Call_execute_safe_code code al ns \<in> set (new_calls s (snd (run_all c qs s))) \<longrightarrow>
      al = cls_ALLOWED_KEYWORDS s) \<and>
   (\<forall>code al ns.
      Call_execute_safe_code code al ns \<in> set (calls (snd (run_all c qs (initial_state a x)))) \<longrightarrow>
      al = [''df'', ''iloc'', ''to_dict'', ''mean'', ''mode'', ''std'',
            ''max'', ''min'', ''color'', ''plot'', ''unique'', ''groupby''])"
proof -
  have init: "cls_ALLOWED_KEYWORDS (initial_state a x) =
     [''df'', ''iloc'', ''to_dict'', ''mean'', ''mode'', ''std'',
      ''max'', ''min'', ''color'', ''plot'', ''unique'', ''groupby'']"
    by (simp add: initial_state_def ALLOWED_KEYWORDS_def)
  have vc: "cls_ALLOWED_KEYWORDS (snd (validate_columns c required_columns s)) =
      cls_ALLOWED_KEYWORDS s"
    by (simp add: validate_columns_def Let_def)
  have new: "al = cls_ALLOWED_KEYWORDS s"
    if "Call_execute_safe_code code al ns \<in> set (new_calls s (snd (run_all c qs s)))"
    for code al ns
    using run_all_execute_calls [OF that] by simp
  have all: "al = [''df'', ''iloc'', ''to_dict'', ''mean'', ''mode'', ''std'',
            ''max'', ''min'', ''color'', ''plot'', ''unique'', ''groupby'']"
    if "Call_execute_safe_code code al ns \<in> set (calls (snd (run_all c qs (initial_state a x))))"
    for code al ns
    using run_all_execute_calls [of code al ns "initial_state a x" c qs] that init
    by (simp add: new_calls_initial)
  from init vc extract_frame [of c response s] process_query_frame [of c q s]
    run_frame [of c q s] run_all_frame [of c qs s] new all
  show ?thesis by blast
qed

theorem allowed_keywords_fixed_witness:
  "cls_ALLOWED_KEYWORDS (snd (run_all example_collab
     [''plot bar chart of sale price by country with unique color'', ''Plot a histogram of SALES'']
     (initial_state example_agent []))) =
     [''df'', ''iloc'', ''to_dict'', ''mean'', ''mode'', ''std'',
      ''max'', ''min'', ''color'', ''plot'', ''unique'', ''groupby''] \<and>
   Call_execute_safe_code ''df.plot()''
     [''df'', ''iloc'', ''to_dict'', ''mean'', ''mode'', ''std'',
      ''max'', ''min'', ''color'', ''plot'', ''unique'', ''groupby'']
     [(''df'', DataFrame 2), (''pd'', Module ''pandas''), (''plt'', Module ''matplotlib.pyplot'')]
   \<in> set (calls (snd (run_all example_collab
     [''plot bar chart of sale price by country with unique color'', ''Plot a histogram of SALES'']
     (initial_state example_agent []))))"
proof -
  let ?qs = "[''plot bar chart of sale price by country with unique color'',
              ''Plot a histogram of SALES'']"
  let ?s = "initial_state example_agent ([] :: string list)"
  have mem: "Call_execute_safe_code ''df.plot()'' ALLOWED_KEYWORDS
       [(''df'', DataFrame 2), (''pd'', Module ''pandas''), (''plt'', Module ''matplotlib.pyplot'')]
     \<in> set (calls (snd (run_all example_collab ?qs ?s)))"
    by (subst example_two_queries) simp
  note T = allowed_keywords_fixed
    [where a = example_agent and x = "[] :: string list" and c = example_collab and s = ?s
       and qs = ?qs and q = "[]" and response = Map.empty and required_columns = "[]"]
  from T have init: "cls_ALLOWED_KEYWORDS ?s =
      [''df'', ''iloc'', ''to_dict'', ''mean'', ''mode'', ''std'',
       ''max'', ''min'', ''color'', ''plot'', ''unique'', ''groupby'']"
    by (rule conjunct1)
  from T have "cls_ALLOWED_KEYWORDS (snd (run_all example_collab ?qs ?s)) = cls_ALLOWED_KEYWORDS ?s"
    by (elim conjE)
  with init have fixed: "cls_ALLOWED_KEYWORDS (snd (run_all example_collab ?qs ?s)) =
      [''df'', ''iloc'', ''to_dict'', ''mean'', ''mode'', ''std'',
       ''max'', ''min'', ''color'', ''plot'', ''unique'', ''groupby'']"
    by (simp only:)
  from T have "\<forall>code al ns. Call_execute_safe_code code al ns
         \<in> set (calls (snd (run_all example_collab ?qs ?s))) \<longrightarrow>
       al = [''df'', ''iloc'', ''to_dict'', ''mean'', ''mode'', ''std'',
             ''max'', ''min'', ''color'', ''plot'', ''unique'', ''groupby'']"
    by (elim conjE)
  with mem have "ALLOWED_KEYWORDS = [''df'', ''iloc'', ''to_dict'', ''mean'', ''mode'', ''std'',
             ''max'', ''min'', ''color'', ''plot'', ''unique'', ''groupby'']"
    by blast
  with mem fixed show ?thesis by (simp only: simp_thms)
qed

text \<open>
  C5. Over any sequence of queries, every call of \<^verbatim>\<open>execute_safe_code\<close> gets a
  namespace built for that call: the dict with exactly the three keys \<open>df\<close>, \<open>pd\<close> and
  \<open>plt\<close>, bound to the agent's dataframe, pandas and pyplot. The dict is not kept:
  two executors that differ only in what they leave in the dict they were given lead
  to the same results, states and later calls.
\<close>

theorem execution_namespace_fresh:
  "(\<forall>code al ns.
      Call_execute_safe_code code al ns \<in> set (new_calls s (snd (run_all c qs s))) \<longrightarrow>
      ns = [(''df'', DataFrame (df (self s))), (''pd'', Module ''pandas''),
            (''plt'', Module ''matplotlib.pyplot'')] \<and>
      map fst ns = [''df'', ''pd'', ''plt'']) \<and>
   ((\<forall>code al ns x. fst (e1 code al ns x) = fst (e2 code al ns x) \<and>
                     snd (snd (e1 code al ns x)) = snd (snd (e2 code al ns x))) \<longrightarrow>
      run_all (c\<lparr>execute_safe_code := e1\<rparr>) qs s =
      run_all (c\<lparr>execute_safe_code := e2\<rparr>) qs s)"
proof (intro conjI allI impI)
  fix code al ns
  assume "Call_execute_safe_code code al ns \<in> set (new_calls s (snd (run_all c qs s)))"
  from run_all_execute_calls [OF this]
  show "ns = [(''df'', DataFrame (df (self s))), (''pd'', Module ''pandas''),
              (''plt'', Module ''matplotlib.pyplot'')]"
    and "map fst ns = [''df'', ''pd'', ''plt'']"
    by (simp_all add: execution_namespace_def)
next
  assume "\<forall>code al ns x. fst (e1 code al ns x) = fst (e2 code al ns x) \<and>
                     snd (snd (e1 code al ns x)) = snd (snd (e2 code al ns x))"
  then show "run_all (c\<lparr>execute_safe_code := e1\<rparr>) qs s =
      run_all (c\<lparr>execute_safe_code := e2\<rparr>) qs s"
    by (rule run_all_namespace_dropped)
qed

theorem execution_namespace_fresh_witness:
  "calls (snd (run_all
     (example_collab\<lparr>execute_safe_code :=
        (\<lambda>code allowed ns x. (Inr (), ns @ [(''fig'', Module ''figure'')], x @ [code]))\<rparr>)
     [''plot bar chart of sale price by country with unique color'', ''Plot a histogram of SALES'']
     (initial_state example_agent []))) =
   [Call_invoke 3 ''plot bar chart of sale price by country with unique color'',
    Call_extract_code_snippet ''df.plot()'',
    Call_execute_safe_code ''df.plot()'' ALLOWED_KEYWORDS
      [(''df'', DataFrame 2), (''pd'', Module ''pandas''), (''plt'', Module ''matplotlib.pyplot'')],
    Call_invoke 3 ''Plot a histogram of SALES'',
    Call_extract_code_snippet ''df.plot()'',
    Call_execute_safe_code ''df.plot()'' ALLOWED_KEYWORDS
      [(''df'', DataFrame 2), (''pd'', Module ''pandas''), (''plt'', Module ''matplotlib.pyplot'')]]"
proof -
  let ?qs = "[''plot bar chart of sale price by country with unique color'',
              ''Plot a histogram of SALES'']"
  let ?s = "initial_state example_agent ([] :: string list)"
  let ?e1 = "\<lambda>(code :: string) (allowed :: string list) (ns :: namespace) (x :: string list).
               (Inr () :: exn + unit, ns @ [(''fig'', Module ''figure'')], x @ [code])"
  let ?e2 = "execute_safe_code example_collab"
  have same: "\<forall>code al ns x. fst (?e1 code al ns x) = fst (?e2 code al ns x) \<and>
                  snd (snd (?e1 code al ns x)) = snd (snd (?e2 code al ns x))"
    by (simp add: example_collab_def)
  from execution_namespace_fresh
    [where c = example_collab and s = ?s and qs = ?qs and ?e1.0 = ?e1 and ?e2.0 = ?e2] same
  have "run_all (example_collab\<lparr>execute_safe_code := ?e1\<rparr>) ?qs ?s =
        run_all (example_collab\<lparr>execute_safe_code := ?e2\<rparr>) ?qs ?s"
    by blast
  moreover have "example_collab\<lparr>execute_safe_code := ?e2\<rparr> = example_collab"
    by simp
  ultimately have "run_all (example_collab\<lparr>execute_safe_code := ?e1\<rparr>) ?qs ?s =
      run_all example_collab ?qs ?s"
    by (simp only:)
  then show ?thesis
    by (simp only: example_two_queries) simp
qed

text \<open>
  C10. \<^verbatim>\<open>__init__\<close> sets \<^verbatim>\<open>self.df\<close> to what \<^verbatim>\<open>get_data()\<close> of its new
  \<^verbatim>\<open>DataHandler\<close> returns. \<^verbatim>\<open>_validate_columns\<close>, \<^verbatim>\<open>_extract_and_execute_code\<close>,
  \<^verbatim>\<open>process_query\<close> and \<^verbatim>\<open>run\<close> leave the four attributes \<^verbatim>\<open>llm\<close>,
  \<^verbatim>\<open>data_handler\<close>, \<^verbatim>\<open>df\<close> and \<^verbatim>\<open>data_analysis_agent\<close> as they are, over any sequence of
  queries; every execution namespace binds \<open>df\<close> to that dataframe, and a column
  validation after any number of queries reads the columns of that dataframe.
\<close>

theorem dataframe_fixed_at_construction:
  "(\<forall>a x'. PlotAgent_init c env x = (Inr a, x') \<longrightarrow>
      (\<exists>h x1 x2. DataHandler_new c x = (Inr h, x1) \<and>
                 get_data c h x1 = (Inr (df a), x2) \<and> data_handler a = h)) \<and>
   self (snd (validate_columns c required_columns s)) = self s \<and>
   self (snd (extract_and_execute_code c response s)) = self s \<and>
   self (snd (process_query c q s)) = self s \<and>
   self (snd (run c q s)) = self s \<and>
   self (snd (run_all c qs s)) = self s \<and>
   (\<forall>code al ns.
      Call_execute_safe_code code al ns \<in> set (new_calls s (snd (run_all c qs s))) \<longrightarrow>
      map_of ns ''df'' = Some (DataFrame (df (self s)))) \<and>
   fst (validate_columns c required_columns (snd (run_all c qs s))) =
     (let missing = filter (\<lambda>col. col \<notin> set (df_columns c (df (self s))
                                                    (ext (snd (run_all c qs s)))))
                      required_columns
      in if missing \<noteq> []
         then Inl (ValueError (''Missing required columns: '' @ join '', '' missing))
         else Inr ())"
proof -
  have vc: "self (snd (validate_columns c required_columns s)) = self s"
    by (simp add: validate_columns_def Let_def)
  have ns: "map_of ns ''df'' = Some (DataFrame (df (self s)))"
    if "Call_execute_safe_code code al ns \<in> set (new_calls s (snd (run_all c qs s)))"
    for code al ns
    using run_all_execute_calls [OF that] by (simp add: execution_namespace_def)
  have later: "fst (validate_columns c required_columns (snd (run_all c qs s))) =
     (let missing = filter (\<lambda>col. col \<notin> set (df_columns c (df (self s))
                                                    (ext (snd (run_all c qs s)))))
                      required_columns
      in if missing \<noteq> []
         then Inl (ValueError (''Missing required columns: '' @ join '', '' missing))
         else Inr ())"
    using run_all_frame [of c qs s] by (simp add: validate_columns_def Let_def)
  from init_df [of c env x] vc extract_frame [of c response s] process_query_frame [of c q s]
    run_frame [of c q s] run_all_frame [of c qs s] ns later
  show ?thesis by blast
qed

theorem dataframe_fixed_at_construction_witness:
  "PlotAgent_init example_collab Map.empty [] = (Inr example_agent, []) \<and>
   DataHandler_new example_collab [] = (Inr (data_handler example_agent), []) \<and>
   get_data example_collab (data_handler example_agent) [] = (Inr (df example_agent), []) \<and>
   self (snd (run_all example_collab
     [''plot bar chart of sale price by country with unique color'', ''Plot a histogram of SALES'']
     (initial_state example_agent []))) = example_agent"
proof -
  let ?qs = "[''plot bar chart of sale price by country with unique color'',
              ''Plot a histogram of SALES'']"
  let ?s = "initial_state example_agent ([] :: string list)"
  note T = dataframe_fixed_at_construction
    [where c = example_collab and env = Map.empty and x = "[]" and s = ?s and qs = ?qs
       and q = "[]" and response = Map.empty and required_columns = "[]"]
  from T have "\<forall>a x'. PlotAgent_init example_collab Map.empty [] = (Inr a, x') \<longrightarrow>
      (\<exists>h x1 x2. DataHandler_new example_collab [] = (Inr h, x1) \<and>
                 get_data example_collab h x1 = (Inr (df a), x2) \<and> data_handler a = h)"
    by (rule conjunct1)
  with example_init obtain h x1 x2 where
    h: "DataHandler_new example_collab [] = (Inr h, x1)"
       "get_data example_collab h x1 = (Inr (df example_agent), x2)"
       "data_handler example_agent = h"
    by blast
  from h(1) have x1: "x1 = []" by (simp add: example_collab_def)
  from h(2) have x2: "x2 = []" by (simp add: example_collab_def x1)
  from T have "self (snd (run_all example_collab ?qs ?s)) = self ?s"
    by (elim conjE)
  then have fixed: "self (snd (run_all example_collab ?qs ?s)) = example_agent"
    by (simp only: initial_state_def state.simps)
  from h x1 x2 fixed example_init show ?thesis by (simp only: simp_thms)
qed

end
